theory Spec2Isabelle
  imports Complex_Main
begin

section \<open>Errors and strings\<close>

text \<open>
  The exceptions of \<^verbatim>\<open>csv2tif.py\<close> as values, one constructor for each class that is
  raised. \<open>KeyError\<close> and \<open>OSError\<close> with a message are the two the module raises
  itself (and \<open>KeyError\<close> is also what the table library raises for a label it does
  not have). The others are raised by the libraries the module calls: \<open>IndexError\<close>,
  \<open>ValueError\<close> and \<open>OverflowError\<close> by Python and the array library,
  \<open>FileNotFoundError\<close>, \<open>IsADirectoryError\<close>, \<open>EmptyDataError\<close> and \<open>ParserError\<close>
  by the table reader, \<open>CRSError\<close> by the projection library, \<open>RasterioIOError\<close> by
  the raster library when it cannot create a file.
\<close>

datatype error =
    KeyError string
  | OSError string
  | IndexError
  | ValueError
  | OverflowError
  | FileNotFoundError
  | IsADirectoryError
  | EmptyDataError
  | ParserError
  | CRSError
  | RasterioIOError

text \<open>
  The class hierarchy, as far as \<^verbatim>\<open>isinstance(e, OSError)\<close> goes: \<open>OSError\<close> itself and
  its subclasses \<open>FileNotFoundError\<close>, \<open>IsADirectoryError\<close> and \<open>RasterioIOError\<close>.
  \<open>OSError\<close> is the class the module raises for an input it does not accept.
\<close>

fun is_OSError :: "error \<Rightarrow> bool" where
  "is_OSError (OSError m) = True"
| "is_OSError FileNotFoundError = True"
| "is_OSError IsADirectoryError = True"
| "is_OSError RasterioIOError = True"
| "is_OSError e = False"

text \<open>
  \<^verbatim>\<open>str.lower()\<close> on the bytes of a name: the letters \<open>A\<close> to \<open>Z\<close> (codes 65 to 90)
  get bit 5 set, every other byte is kept. The names compared against below consist of
  the letters of \<open>latitude\<close>, \<open>longitude\<close>, \<open>lng\<close> and \<open>.csv\<close> only, and no
  character outside ASCII lowers to one of those.
\<close>

definition lower_char :: "char \<Rightarrow> char" where
  "lower_char c =
     (case c of Char b0 b1 b2 b3 b4 b5 b6 b7 \<Rightarrow>
        if 65 \<le> (of_char c :: nat) \<and> (of_char c :: nat) \<le> 90
        then Char b0 b1 b2 b3 b4 True b6 b7 else c)"

definition lower :: "string \<Rightarrow> string" where
  "lower s = map lower_char s"

section \<open>Column Resolver: \<^verbatim>\<open>get_latlon_names\<close>\<close>

text \<open>
  The dictionary \<^verbatim>\<open>result\<close> has the two keys \<^verbatim>\<open>"lat"\<close> and \<^verbatim>\<open>"lng"\<close>; the empty tuple
  \<^verbatim>\<open>()\<close> it starts with is \<open>None\<close>, a pair \<^verbatim>\<open>(i, x)\<close> is \<open>Some (i, x)\<close>.
\<close>

record latlon_names =
  lat :: "(nat \<times> string) option"
  lng :: "(nat \<times> string) option"

text \<open>
  The loop \<^verbatim>\<open>for i, x in enumerate(columns)\<close>: every column is visited, and a column
  that matches assigns its key again, whatever the key held before.
\<close>

fun scan_columns :: "nat \<Rightarrow> string list \<Rightarrow> latlon_names \<Rightarrow> latlon_names" where
  "scan_columns i [] result = result"
| "scan_columns i (x # xs) result =
     (let xl = lower x in
      if xl = ''latitude'' \<or> xl = ''lat''
      then scan_columns (Suc i) xs (result\<lparr>lat := Some (i, x)\<rparr>)
      else if xl = ''longitude'' \<or> xl = ''lng''
      then scan_columns (Suc i) xs (result\<lparr>lng := Some (i, x)\<rparr>)
      else scan_columns (Suc i) xs result)"

text \<open>
  The messages are built with \<^verbatim>\<open>"... {}".format(columns)\<close>, where \<^verbatim>\<open>columns\<close> is the
  table library's index object: its rendering \<open>str_index\<close> is a parameter.
\<close>

definition get_latlon_names ::
  "(string list \<Rightarrow> string) \<Rightarrow> string list \<Rightarrow> error + latlon_names" where
  "get_latlon_names str_index columns =
     (let result = scan_columns 0 columns \<lparr>lat = None, lng = None\<rparr> in
      if lat result = None
      then Inl (KeyError (''Latitude is not found! '' @ str_index columns))
      else if lng result = None
      then Inl (KeyError (''Longitude is not found! '' @ str_index columns))
      else Inr result)"

text \<open>
  A rendering to run the resolver with: the form the table library prints a short index
  of names in, \<^verbatim>\<open>Index(['a', 'b'], dtype='object')\<close>.
\<close>

fun join_names :: "string list \<Rightarrow> string" where
  "join_names [] = []"
| "join_names [x] = [CHR 0x27] @ x @ [CHR 0x27]"
| "join_names (x # y # ys) = [CHR 0x27] @ x @ [CHR 0x27] @ '', '' @ join_names (y # ys)"

definition index_repr :: "string list \<Rightarrow> string" where
  "index_repr columns =
     ''Index(['' @ join_names columns @ ''], dtype='' @ [CHR 0x27] @ ''object'' @ [CHR 0x27] @ '')''"

text \<open>
  The alias sets of the specification: a name is a latitude alias when it equals
  \<open>latitude\<close> or \<open>lat\<close> without regard to case, a longitude alias when it equals
  \<open>longitude\<close> or \<open>lng\<close>. \<open>last_match P xs i\<close>: position \<open>i\<close> is the last one of
  \<open>xs\<close> whose name satisfies \<open>P\<close>; \<open>first_match P xs i\<close>: it is the first one.
\<close>

definition lat_alias :: "string \<Rightarrow> bool" where
  "lat_alias x = (lower x = ''latitude'' \<or> lower x = ''lat'')"

definition lng_alias :: "string \<Rightarrow> bool" where
  "lng_alias x = (lower x = ''longitude'' \<or> lower x = ''lng'')"

definition last_match :: "(string \<Rightarrow> bool) \<Rightarrow> string list \<Rightarrow> nat \<Rightarrow> bool" where
  "last_match P xs i =
     (i < length xs \<and> P (xs ! i) \<and> (\<forall>k < length xs. P (xs ! k) \<longrightarrow> k \<le> i))"

definition first_match :: "(string \<Rightarrow> bool) \<Rightarrow> string list \<Rightarrow> nat \<Rightarrow> bool" where
  "first_match P xs i =
     (i < length xs \<and> P (xs ! i) \<and> (\<forall>k < length xs. P (xs ! k) \<longrightarrow> i \<le> k))"

section \<open>Tables, numbers and the libraries\<close>

text \<open>
  A data frame is the ordered sequence of its named columns, each column the sequence
  of its values in row order; the table reader gives every column a distinct name, and
  all columns the same length. Only numeric tables are modelled. A float of Python or
  of the array library is a double, modelled as the real number it stands for; what an
  operation on doubles returns is given with the operation below.
\<close>

type_synonym dataframe = "(string \<times> real list) list"

text \<open>A point geometry \<^verbatim>\<open>Point(x, y)\<close>: \<open>x\<close> is the longitude, \<open>y\<close> the latitude.\<close>

type_synonym point = "real \<times> real"

text \<open>A two-dimensional array, as the list of its rows.\<close>

type_synonym array = "real list list"

text \<open>The affine transform \<^verbatim>\<open>Affine(a, b, c, d, e, f)\<close> of the raster library.\<close>

record affine =
  aff_a :: real
  aff_b :: real
  aff_c :: real
  aff_d :: real
  aff_e :: real
  aff_f :: real

text \<open>The dictionary \<^verbatim>\<open>profile\<close> of \<^verbatim>\<open>convert_csv\<close>, one field for each key.\<close>

record profile =
  driver :: string
  width :: int
  height :: int
  count :: nat
  dtype :: string
  crs :: string
  transform :: affine
  nodata :: real

text \<open>
  A raster file opened for writing: the profile it was created with and, for each band
  index that \<^verbatim>\<open>write\<close> was called with, the band stored.
\<close>

record dataset =
  ds_profile :: profile
  ds_bands :: "nat \<rightharpoonup> array"

text \<open>
  The file system maps a path to what is there: a table the reader can parse, a raster
  file, a directory, an empty file, or anything else the reader cannot parse.
\<close>

datatype fs_entry = Csv dataframe | Tif dataset | Directory | EmptyFile | Other

type_synonym filesystem = "string \<rightharpoonup> fs_entry"

datatype direction = NORTH | EAST

text \<open>
  What the module takes from its libraries and its surroundings without the source
  deciding it: the rendering of a column index in a message, the geodesic destination
  \<^verbatim>\<open>inverse_haversine(point, distance, direction, unit=Unit.METERS)\<close> on points
  (latitude, longitude), which EPSG codes the projection library knows, which paths a
  file can be created at, and three things the floating-point arithmetic of the
  machine and of the raster library decides:
  \<^item> \<open>rounding\<close>, the double nearest to a real number;
  \<^item> \<open>pixel_of\<close>, the cell (row, column) that the rasterizer computes for a point
    under a transform, by the inverse of the transform in doubles, rounded down;
  \<^item> \<open>written\<close>, the band that the raster library stores when an array is written
    to a data set with a given profile: the array in the sample type of the data set,
    resampled to the height and width of the data set when its shape is another.
\<close>

record env =
  format_index :: "string list \<Rightarrow> string"
  inverse_haversine :: "real \<times> real \<Rightarrow> real \<Rightarrow> direction \<Rightarrow> real \<times> real"
  epsg_known :: "int \<Rightarrow> bool"
  creatable :: "string \<Rightarrow> bool"
  rounding :: "real \<Rightarrow> real"
  pixel_of :: "affine \<Rightarrow> point \<Rightarrow> int \<times> int"
  written :: "profile \<Rightarrow> array \<Rightarrow> array"

text \<open>
  The result of an operation on doubles is its exact result rounded to a double; zero
  is a double, so an exact result of zero stays zero. (A result too large for a double
  becomes an infinity; that needs operands near the largest double and is left out.)
\<close>

definition float64 :: "env \<Rightarrow> real \<Rightarrow> real" where
  "float64 env x = (if x = 0 then 0 else rounding env x)"

text \<open>\<^verbatim>\<open>pd.read_csv(path)\<close>.\<close>

definition read_csv :: "filesystem \<Rightarrow> string \<Rightarrow> error + dataframe" where
  "read_csv fs path =
     (case fs path of
        None \<Rightarrow> Inl FileNotFoundError
      | Some (Csv df) \<Rightarrow> Inr df
      | Some Directory \<Rightarrow> Inl IsADirectoryError
      | Some EmptyFile \<Rightarrow> Inl EmptyDataError
      | Some _ \<Rightarrow> Inl ParserError)"

text \<open>\<^verbatim>\<open>df[name]\<close>: the column with that label.\<close>

definition column :: "dataframe \<Rightarrow> string \<Rightarrow> error + real list" where
  "column df name = (case map_of df name of None \<Rightarrow> Inl (KeyError name) | Some vs \<Rightarrow> Inr vs)"

text \<open>\<^verbatim>\<open>df.drop(names, axis=1)\<close>, for labels the frame has: the columns not named.\<close>

definition drop_columns :: "dataframe \<Rightarrow> string list \<Rightarrow> dataframe" where
  "drop_columns df names = filter (\<lambda>col. fst col \<notin> set names) df"

text \<open>
  \<^verbatim>\<open>gdf.total_bounds\<close>: (min x, min y, max x, max y) over the points; it is used for
  a frame with at least one row only.
\<close>

definition total_bounds :: "point list \<Rightarrow> real \<times> real \<times> real \<times> real" where
  "total_bounds geom =
     (Min (set (map fst geom)), Min (set (map snd geom)),
      Max (set (map fst geom)), Max (set (map snd geom)))"

text \<open>\<^verbatim>\<open>int(x)\<close> on a finite float: the fraction is dropped, towards zero.\<close>

definition trunc :: "real \<Rightarrow> int" where
  "trunc x = (if 0 \<le> x then \<lfloor>x\<rfloor> else \<lceil>x\<rceil>)"

text \<open>
  \<^verbatim>\<open>int(x / u)\<close> where \<open>x\<close> is a float of the array library: the quotient is a
  double, and \<^verbatim>\<open>int\<close> truncates that double. For \<open>u = 0\<close> the quotient is
  not-a-number (\<open>x = 0\<close>) or infinite, and \<^verbatim>\<open>int\<close> raises.
\<close>

definition int_quotient :: "env \<Rightarrow> real \<Rightarrow> real \<Rightarrow> error + int" where
  "int_quotient env x u =
     (if u = 0 then (if x = 0 then Inl ValueError else Inl OverflowError)
      else Inr (trunc (float64 env (x / u))))"

text \<open>
  \<^verbatim>\<open>rasterio.transform.from_bounds(west, south, east, north, width, height)\<close>: the
  translation to the upper left corner times the scaling by the cell sizes, each cell
  size a difference and a quotient of doubles. It is used below for positive \<open>width\<close>
  and \<open>height\<close> only (with a zero, its floating-point result is not a number, and the
  file is refused before the transform is used).
\<close>

definition from_bounds ::
  "env \<Rightarrow> real \<Rightarrow> real \<Rightarrow> real \<Rightarrow> real \<Rightarrow> int \<Rightarrow> int \<Rightarrow> affine" where
  "from_bounds env west south east north w h =
     \<lparr>aff_a = float64 env (float64 env (east - west) / of_int w), aff_b = 0, aff_c = west,
      aff_d = 0, aff_e = float64 env (float64 env (south - north) / of_int h),
      aff_f = north\<rparr>"

text \<open>
  \<^verbatim>\<open>rasterio.open(path, "w", **profile)\<close> with the GTiff driver: the file is created,
  replacing what was there, unless the path cannot be created or the width, the
  height or the band count is not positive.
\<close>

definition rasterio_open :: "env \<Rightarrow> string \<Rightarrow> profile \<Rightarrow> error + dataset" where
  "rasterio_open env path prof =
     (if \<not> creatable env path \<or> width prof < 1 \<or> height prof < 1 \<or> count prof < 1
      then Inl RasterioIOError
      else Inr \<lparr>ds_profile = prof, ds_bands = Map.empty\<rparr>)"

text \<open>
  \<^verbatim>\<open>rasterio.features.rasterize(shapes, out_shape, transform, fill, all_touched)\<close> on
  point geometries, with the default merge algorithm (replace). The output array has
  \<open>out_shape = (rows, columns)\<close> and starts filled with \<open>fill\<close>; the shapes are burnt in
  the order given; a point is burnt into the cell (row, column) that \<open>pixel_of\<close> gives
  for it, when the array has that cell, and is skipped otherwise. For a point
  \<^verbatim>\<open>all_touched\<close> changes nothing.
\<close>

definition full :: "nat \<Rightarrow> nat \<Rightarrow> real \<Rightarrow> array" where
  "full rows cols v = replicate rows (replicate cols v)"

definition burn :: "int \<times> int \<Rightarrow> real \<Rightarrow> array \<Rightarrow> array" where
  "burn rc v out =
     (let r = fst rc; c = snd rc in
      if 0 \<le> r \<and> r < int (length out) \<and> 0 \<le> c \<and> c < int (length (out ! nat r))
      then out[nat r := (out ! nat r)[nat c := v]]
      else out)"

definition rasterize ::
  "env \<Rightarrow> (point \<times> real) list \<Rightarrow> int \<times> int \<Rightarrow> affine \<Rightarrow> real \<Rightarrow> error + array" where
  "rasterize env shapes out_shape t fill =
     (if fst out_shape < 1 \<or> snd out_shape < 1 then Inl ValueError
      else Inr (fold (\<lambda>shape. burn (pixel_of env t (fst shape)) (snd shape)) shapes
                  (full (nat (fst out_shape)) (nat (snd out_shape)) fill)))"

text \<open>\<^verbatim>\<open>"{}".format(n)\<close> for an integer: its decimal digits, with a sign when negative.\<close>

fun str_nat :: "nat \<Rightarrow> string" where
  "str_nat n =
     (if n < 10 then [''0123456789'' ! n]
      else str_nat (n div 10) @ [''0123456789'' ! (n mod 10)])"

definition str_int :: "int \<Rightarrow> string" where
  "str_int i = (if i < 0 then CHR ''-'' # str_nat (nat (- i)) else str_nat (nat i))"

section \<open>The class \<^verbatim>\<open>Csv2Tif\<close>\<close>

record csv2tif =
  input_file_list :: "string list"
  n_inputs :: nat
  crs_code :: int
  resolution :: real
  output_file_list :: "string list"

text \<open>\<^verbatim>\<open>__init__\<close>.\<close>

definition init :: "string list \<Rightarrow> int \<Rightarrow> real \<Rightarrow> csv2tif" where
  "init input_files code res =
     \<lparr>input_file_list = input_files, n_inputs = length input_files,
      crs_code = code, resolution = res, output_file_list = []\<rparr>"

subsection \<open>\<^verbatim>\<open>convert_csv\<close>, lines 77 to 87: the columns and the point geometries\<close>

text \<open>
  The result is the frame without its two coordinate columns and the list
  \<^verbatim>\<open>geom\<close> of the points (longitude, latitude) in row order. The geo frame
  \<^verbatim>\<open>gdf\<close> is this frame with the geometries beside it (no attribute column being itself
  named \<open>geometry\<close>); its construction fails for an EPSG code that is not known.
\<close>

definition read_points :: "env \<Rightarrow> csv2tif \<Rightarrow> dataframe \<Rightarrow> error + dataframe \<times> point list" where
  "read_points env self df =
     (case get_latlon_names (format_index env) (map fst df) of
        Inl e \<Rightarrow> Inl e
      | Inr latlng_names \<Rightarrow>
          (case (lng latlng_names, lat latlng_names) of
             (Some lng_pair, Some lat_pair) \<Rightarrow>
               (case column df (snd lng_pair) of
                  Inl e \<Rightarrow> Inl e
                | Inr xs \<Rightarrow>
                    (case column df (snd lat_pair) of
                       Inl e \<Rightarrow> Inl e
                     | Inr ys \<Rightarrow>
                         if epsg_known env (crs_code self)
                         then Inr (drop_columns df [snd lat_pair, snd lng_pair], zip xs ys)
                         else Inl CRSError))
           | _ \<Rightarrow> Inl IndexError))"

subsection \<open>\<^verbatim>\<open>convert_csv\<close>, lines 89 to 98: the bounding box and the grid size\<close>

text \<open>
  \<^verbatim>\<open>gdf.geometry[0]\<close> raises \<^verbatim>\<open>KeyError: 0\<close> for a frame without rows. The result is
  \<^verbatim>\<open>bbox\<close> and \<^verbatim>\<open>nxy\<close>.
\<close>

definition grid_size ::
  "env \<Rightarrow> real \<Rightarrow> point list \<Rightarrow> error + (real \<times> real \<times> real \<times> real) \<times> (int \<times> int)" where
  "grid_size env res geom =
     (case geom of
        [] \<Rightarrow> Inl (KeyError ''0'')
      | g0 # _ \<Rightarrow>
          (case total_bounds geom of
             (b0, b1, b2, b3) \<Rightarrow>
               let point0 = (snd g0, fst g0);
                   point_east = inverse_haversine env point0 res EAST;
                   point_north = inverse_haversine env point0 res NORTH;
                   unit0 = float64 env (snd point_east - snd point0);
                   unit1 = float64 env (fst point_north - fst point0)
               in (case int_quotient env (float64 env (b2 - b0)) unit0 of
                     Inl e \<Rightarrow> Inl e
                   | Inr nx \<Rightarrow>
                       (case int_quotient env (float64 env (b3 - b1)) unit1 of
                          Inl e \<Rightarrow> Inl e
                        | Inr ny \<Rightarrow> Inr ((b0, b1, b2, b3), (nx, ny))))))"

subsection \<open>\<^verbatim>\<open>convert_csv\<close>, lines 99 to 111: the transform and the profile\<close>

definition make_profile ::
  "env \<Rightarrow> csv2tif \<Rightarrow> dataframe \<Rightarrow> real \<times> real \<times> real \<times> real \<Rightarrow> int \<times> int \<Rightarrow> profile" where
  "make_profile env self df bbox nxy =
     (case bbox of
        (b0, b1, b2, b3) \<Rightarrow>
          \<lparr>driver = ''GTiff'',
           width = fst nxy,
           height = snd nxy,
           count = length df,
           dtype = ''float32'',
           crs = ''EPSG:'' @ str_int (crs_code self),
           transform = from_bounds env b0 b1 b2 b3 (fst nxy) (snd nxy),
           nodata = - 9999\<rparr>)"

subsection \<open>\<^verbatim>\<open>convert_csv\<close>, lines 114 to 121: one band for each remaining column\<close>

text \<open>
  The loop \<^verbatim>\<open>for i, z_name in enumerate(df.columns)\<close> over the names left, from
  position \<open>i\<close>: \<^verbatim>\<open>gdf[z_name]\<close> is looked up by name, the array is rasterized with
  \<^verbatim>\<open>out_shape=nxy\<close>, that is with \<open>fst nxy\<close> rows and \<open>snd nxy\<close> columns, and
  written as band \<open>i + 1\<close> of the data set, whose profile has the width \<open>fst nxy\<close>
  and the height \<open>snd nxy\<close>. An exception leaves the data set as it is at that
  moment.
\<close>

fun write_bands ::
  "env \<Rightarrow> nat \<Rightarrow> string list \<Rightarrow> dataframe \<Rightarrow> point list \<Rightarrow> int \<times> int \<Rightarrow> affine \<Rightarrow> real \<Rightarrow>
     dataset \<Rightarrow> error option \<times> dataset" where
  "write_bands env i [] gdf geom nxy out_transform fill dst = (None, dst)"
| "write_bands env i (z_name # names) gdf geom nxy out_transform fill dst =
     (case column gdf z_name of
        Inl e \<Rightarrow> (Some e, dst)
      | Inr zs \<Rightarrow>
          (case rasterize env (zip geom zs) nxy out_transform fill of
             Inl e \<Rightarrow> (Some e, dst)
           | Inr z_array \<Rightarrow>
               write_bands env (Suc i) names gdf geom nxy out_transform fill
                 (dst\<lparr>ds_bands :=
                    (ds_bands dst)(Suc i \<mapsto> written env (ds_profile dst) z_array)\<rparr>)))"

subsection \<open>\<^verbatim>\<open>convert_csv\<close>\<close>

text \<open>
  The method returns nothing; its outcome is the exception, if any, the object and the
  file system afterwards. Opening the output creates the file, so an exception inside
  the \<^verbatim>\<open>with\<close> block leaves the file with the bands written so far.
\<close>

definition convert_csv ::
  "env \<Rightarrow> csv2tif \<Rightarrow> string \<Rightarrow> string \<Rightarrow> filesystem \<Rightarrow> (error + unit) \<times> csv2tif \<times> filesystem" where
  "convert_csv env self input_file_name output_file_name fs =
     (case read_csv fs input_file_name of
        Inl e \<Rightarrow> (Inl e, self, fs)
      | Inr df0 \<Rightarrow>
          (case read_points env self df0 of
             Inl e \<Rightarrow> (Inl e, self, fs)
           | Inr (df, geom) \<Rightarrow>
               (case grid_size env (resolution self) geom of
                  Inl e \<Rightarrow> (Inl e, self, fs)
                | Inr (bbox, nxy) \<Rightarrow>
                    let prof = make_profile env self df bbox nxy in
                    (case rasterio_open env output_file_name prof of
                       Inl e \<Rightarrow> (Inl e, self, fs)
                     | Inr dst0 \<Rightarrow>
                         (case write_bands env 0 (map fst df) df geom nxy
                                 (transform prof) (nodata prof) dst0 of
                            (None, dst) \<Rightarrow> (Inr (), self, fs(output_file_name \<mapsto> Tif dst))
                          | (Some e, dst) \<Rightarrow>
                              (Inl e, self, fs(output_file_name \<mapsto> Tif dst)))))))"

subsection \<open>Paths (\<^verbatim>\<open>os.path\<close> on a POSIX system)\<close>

definition basename :: "string \<Rightarrow> string" where
  "basename p = rev (takeWhile (\<lambda>ch. ch \<noteq> CHR ''/'') (rev p))"

text \<open>
  \<^verbatim>\<open>dirname\<close>: everything up to and including the last slash, and then without its
  trailing slashes unless it consists of slashes only.
\<close>

definition dirname :: "string \<Rightarrow> string" where
  "dirname p =
     (let head = rev (dropWhile (\<lambda>ch. ch \<noteq> CHR ''/'') (rev p)) in
      if head \<noteq> [] \<and> list_ex (\<lambda>ch. ch \<noteq> CHR ''/'') head
      then rev (dropWhile (\<lambda>ch. ch = CHR ''/'') (rev head))
      else head)"

text \<open>
  \<^verbatim>\<open>splitext\<close>: the extension starts at the last dot, provided that dot comes after the
  last slash and some character of the file name before it is not a dot; otherwise the
  extension is empty.
\<close>

definition splitext :: "string \<Rightarrow> string \<times> string" where
  "splitext p =
     (let ext_tail = rev (takeWhile (\<lambda>ch. ch \<noteq> CHR ''.'') (rev p));
          root = take (length p - length ext_tail - 1) p
      in if CHR ''.'' \<in> set p \<and> CHR ''/'' \<notin> set ext_tail \<and>
            list_ex (\<lambda>ch. ch \<noteq> CHR ''.'') (basename root)
         then (root, drop (length root) p)
         else (p, []))"

text \<open>\<^verbatim>\<open>os.path.join(a, b)\<close>.\<close>

definition join :: "string \<Rightarrow> string \<Rightarrow> string" where
  "join a b =
     (if b \<noteq> [] \<and> hd b = CHR ''/'' then b
      else if a = [] \<or> last a = CHR ''/'' then a @ b
      else a @ ''/'' @ b)"

definition lexists :: "filesystem \<Rightarrow> string \<Rightarrow> bool" where
  "lexists fs p = (fs p \<noteq> None)"

subsection \<open>\<^verbatim>\<open>execute_one\<close> and \<^verbatim>\<open>execute_all\<close>\<close>

definition execute_one ::
  "env \<Rightarrow> csv2tif \<Rightarrow> string \<Rightarrow> filesystem \<Rightarrow> (error + unit) \<times> csv2tif \<times> filesystem" where
  "execute_one env self input_file_name fs =
     (case splitext (basename input_file_name) of
        (body, suffix0) \<Rightarrow>
          let suffix = lower suffix0 in
          if \<not> lexists fs input_file_name
          then (Inl (OSError ''File not found!''), self, fs)
          else if suffix \<noteq> ''.csv''
          then (Inl (OSError ''File extension is invalid! Only 'csv' is available.''), self, fs)
          else
            let output_file_name = join (dirname input_file_name) (body @ ''.tif'')
            in convert_csv env self input_file_name output_file_name fs)"

text \<open>
  The loop of \<^verbatim>\<open>execute_all\<close> over the input files: the first exception ends it.
\<close>

fun execute_loop ::
  "env \<Rightarrow> csv2tif \<Rightarrow> string list \<Rightarrow> filesystem \<Rightarrow> (error + unit) \<times> csv2tif \<times> filesystem" where
  "execute_loop env self [] fs = (Inr (), self, fs)"
| "execute_loop env self (input_file_name # rest) fs =
     (case execute_one env self input_file_name fs of
        (Inl e, self', fs') \<Rightarrow> (Inl e, self', fs')
      | (Inr u, self', fs') \<Rightarrow> execute_loop env self' rest fs')"

definition execute_all ::
  "env \<Rightarrow> csv2tif \<Rightarrow> filesystem \<Rightarrow> (error + unit) \<times> csv2tif \<times> filesystem" where
  "execute_all env self fs = execute_loop env self (input_file_list self) fs"

section \<open>An environment and inputs to run the model on\<close>

text \<open>
  The cell of a point in exact arithmetic: the inverse of the transform, rounded down.
\<close>

definition exact_pixel :: "affine \<Rightarrow> point \<Rightarrow> int \<times> int" where
  "exact_pixel t g = (\<lfloor>(snd g - aff_f t) / aff_e t\<rfloor>, \<lfloor>(fst g - aff_c t) / aff_a t\<rfloor>)"

text \<open>
  The geodesic offset on a sphere of 111195 metres to the degree, as it is for a
  reference point on the equator: \<open>d\<close> metres to the east add \<open>d / 111195\<close> degrees
  to the longitude, to the north the same to the latitude. EPSG code 4326 is known,
  and every path can be created. The arithmetic is exact: nothing is rounded, the cell
  of a point is \<open>exact_pixel\<close>, and the band stored is the array written.
\<close>

definition equator_env :: env where
  "equator_env =
     \<lparr>format_index = index_repr,
      inverse_haversine = (\<lambda>p d dir. case dir of
          NORTH \<Rightarrow> (fst p + d / 111195, snd p)
        | EAST \<Rightarrow> (fst p, snd p + d / 111195)),
      epsg_known = (\<lambda>code. code = 4326),
      creatable = (\<lambda>path. True),
      rounding = (\<lambda>x. x),
      pixel_of = exact_pixel,
      written = (\<lambda>prof arr. arr)\<rparr>"

text \<open>
  Four points near the equator with two attribute columns; the last two rows fall
  into the same cell at a resolution of 100 metres.
\<close>

definition four_points :: dataframe where
  "four_points =
     [(''lat'', [0, 7 / 2000, 3 / 1000, 31 / 10000]),
      (''a'', [1, 2, 3, 4]),
      (''lng'', [0, 1 / 400, 1 / 2000, 3 / 5000]),
      (''b'', [5, 6, 7, 8])]"

text \<open>One point with one attribute column.\<close>

definition one_point :: dataframe where
  "one_point = [(''lat'', [35]), (''lng'', [139]), (''val'', [10])]"

text \<open>Two points on the same latitude, a four-hundredth of a degree apart.\<close>

definition same_latitude :: dataframe where
  "same_latitude = [(''lat'', [0, 0]), (''lng'', [0, 1 / 400]), (''val'', [10, 20])]"

text \<open>
  Four points with one attribute column; the last two rows fall into the same cell,
  row 2 and column 0, of the grid of width 2 and height 3 that a resolution of 100
  metres gives.
\<close>

definition shared_cell :: dataframe where
  "shared_cell =
     [(''lat'', [0, 7 / 2000, 1 / 2000, 3 / 5000]),
      (''lng'', [0, 1 / 400, 1 / 2000, 3 / 5000]),
      (''a'', [1, 2, 3, 4])]"

text \<open>
  Four points with two attribute columns whose bounding box is a square, so that the
  grid has as many rows as columns.
\<close>

definition square_points :: dataframe where
  "square_points =
     [(''lat'', [0, 1 / 400, 1 / 2000, 3 / 5000]),
      (''a'', [1, 2, 3, 4]),
      (''lng'', [0, 1 / 400, 1 / 2000, 3 / 5000]),
      (''b'', [5, 6, 7, 8])]"

section \<open>Properties of the Column Resolver\<close>

lemma alias_disjoint: "lat_alias x \<Longrightarrow> \<not> lng_alias x"
  by (auto simp: lat_alias_def lng_alias_def)

lemma scan_lat_None:
  "lat (scan_columns i xs r) = None \<longleftrightarrow> lat r = None \<and> (\<forall>x \<in> set xs. \<not> lat_alias x)"
  by (induction xs arbitrary: i r) (auto simp: lat_alias_def Let_def)

lemma scan_lng_None:
  "lng (scan_columns i xs r) = None \<longleftrightarrow> lng r = None \<and> (\<forall>x \<in> set xs. \<not> lng_alias x)"
  by (induction xs arbitrary: i r) (auto simp: lng_alias_def Let_def)

lemma last_match_Cons_0:
  "P x \<Longrightarrow> \<forall>y \<in> set xs. \<not> P y \<Longrightarrow> last_match P (x # xs) 0"
  unfolding last_match_def by (auto simp: nth_Cons split: nat.splits)

lemma last_match_Cons_Suc:
  "last_match P xs k \<Longrightarrow> last_match P (x # xs) (Suc k)"
  unfolding last_match_def by (auto simp: nth_Cons split: nat.splits)

text \<open>
  What a key holds after the scan from position \<open>i\<close>: what it held before, when no
  name of the rest matches, and otherwise the last matching position with its name.
\<close>

lemma scan_lat_Some:
  "lat (scan_columns i xs r) = Some (j, y) \<Longrightarrow>
     (lat r = Some (j, y) \<and> (\<forall>x \<in> set xs. \<not> lat_alias x)) \<or>
     (i \<le> j \<and> last_match lat_alias xs (j - i) \<and> xs ! (j - i) = y)"
proof (induction xs arbitrary: i r)
  case Nil
  then show ?case by simp
next
  case (Cons x xs)
  define r' where "r' = (if lat_alias x then r\<lparr>lat := Some (i, x)\<rparr>
     else if lng_alias x then r\<lparr>lng := Some (i, x)\<rparr> else r)"
  have step: "lat (scan_columns (Suc i) xs r') = Some (j, y)"
    using Cons.prems
    by (auto simp: r'_def lat_alias_def lng_alias_def Let_def split: if_splits)
  have r': "lat r' = (if lat_alias x then Some (i, x) else lat r)"
    by (auto simp: r'_def)
  from Cons.IH [OF step] show ?case
  proof
    assume a: "lat r' = Some (j, y) \<and> (\<forall>x\<in>set xs. \<not> lat_alias x)"
    show ?thesis
    proof (cases "lat_alias x")
      case True
      then have "j = i" "y = x" using a r' by auto
      moreover have "last_match lat_alias (x # xs) 0"
        using True a by (simp add: last_match_Cons_0)
      ultimately show ?thesis by simp
    next
      case False
      then show ?thesis using a r' by simp
    qed
  next
    assume a: "Suc i \<le> j \<and> last_match lat_alias xs (j - Suc i) \<and> xs ! (j - Suc i) = y"
    then have e: "j - i = Suc (j - Suc i)" by arith
    have "last_match lat_alias (x # xs) (Suc (j - Suc i))"
      using a by (simp add: last_match_Cons_Suc)
    then show ?thesis using a e by simp
  qed
qed

lemma scan_lng_Some:
  "lng (scan_columns i xs r) = Some (j, y) \<Longrightarrow>
     (lng r = Some (j, y) \<and> (\<forall>x \<in> set xs. \<not> lng_alias x)) \<or>
     (i \<le> j \<and> last_match lng_alias xs (j - i) \<and> xs ! (j - i) = y)"
proof (induction xs arbitrary: i r)
  case Nil
  then show ?case by simp
next
  case (Cons x xs)
  define r' where "r' = (if lat_alias x then r\<lparr>lat := Some (i, x)\<rparr>
     else if lng_alias x then r\<lparr>lng := Some (i, x)\<rparr> else r)"
  have step: "lng (scan_columns (Suc i) xs r') = Some (j, y)"
    using Cons.prems
    by (auto simp: r'_def lat_alias_def lng_alias_def Let_def split: if_splits)
  have r': "lng r' = (if lng_alias x then Some (i, x) else lng r)"
    using alias_disjoint [of x] by (auto simp: r'_def)
  from Cons.IH [OF step] show ?case
  proof
    assume a: "lng r' = Some (j, y) \<and> (\<forall>x\<in>set xs. \<not> lng_alias x)"
    show ?thesis
    proof (cases "lng_alias x")
      case True
      then have "j = i" "y = x" using a r' by auto
      moreover have "last_match lng_alias (x # xs) 0"
        using True a by (simp add: last_match_Cons_0)
      ultimately show ?thesis by simp
    next
      case False
      then show ?thesis using a r' by simp
    qed
  next
    assume a: "Suc i \<le> j \<and> last_match lng_alias xs (j - Suc i) \<and> xs ! (j - Suc i) = y"
    then have e: "j - i = Suc (j - Suc i)" by arith
    have "last_match lng_alias (x # xs) (Suc (j - Suc i))"
      using a by (simp add: last_match_Cons_Suc)
    then show ?thesis using a e by simp
  qed
qed

lemma resolver_result:
  assumes "get_latlon_names str_index columns = Inr r"
  shows "\<exists>i j. lat r = Some (i, columns ! i) \<and> last_match lat_alias columns i \<and>
               lng r = Some (j, columns ! j) \<and> last_match lng_alias columns j"
proof -
  let ?s = "scan_columns 0 columns \<lparr>lat = None, lng = None\<rparr>"
  from assms have r: "r = ?s" and la: "lat ?s \<noteq> None" and lo: "lng ?s \<noteq> None"
    by (auto simp: get_latlon_names_def Let_def split: if_splits)
  from la obtain i x where "lat ?s = Some (i, x)" by auto
  from scan_lat_Some [OF this] this
  have 1: "lat ?s = Some (i, columns ! i) \<and> last_match lat_alias columns i" by auto
  from lo obtain j y where "lng ?s = Some (j, y)" by auto
  from scan_lng_Some [OF this] this
  have 2: "lng ?s = Some (j, columns ! j) \<and> last_match lng_alias columns j" by auto
  from 1 2 r show ?thesis by blast
qed

lemma resolver_succeeds:
  assumes "\<exists>x \<in> set columns. lat_alias x" and "\<exists>x \<in> set columns. lng_alias x"
  shows "\<exists>r. get_latlon_names str_index columns = Inr r"
  using assms scan_lat_None [of 0 columns "\<lparr>lat = None, lng = None\<rparr>"]
    scan_lng_None [of 0 columns "\<lparr>lat = None, lng = None\<rparr>"]
  by (auto simp: get_latlon_names_def Let_def)

text \<open>
  Claim C3, as amended. When several columns match the same alias set, the resolver
  returns the last matching column of the header, with its index: each match of the
  scan overwrites the one before. Whenever the resolver returns, each axis holds the
  position and name of the last column of the header that matches its alias set.
\<close>

theorem resolver_last_match:
  assumes "get_latlon_names str_index columns = Inr r"
  shows "\<exists>i j. lat r = Some (i, columns ! i) \<and> last_match lat_alias columns i \<and>
               lng r = Some (j, columns ! j) \<and> last_match lng_alias columns j"
  using assms by (rule resolver_result)

theorem resolver_last_match_witness:
  "get_latlon_names index_repr [''lat'', ''Latitude'', ''lng'', ''LNG''] =
     Inr \<lparr>lat = Some (1, ''Latitude''), lng = Some (3, ''LNG'')\<rparr> \<and>
   (\<exists>i j. lat \<lparr>lat = Some (1, ''Latitude''), lng = Some (3, ''LNG'')\<rparr> =
              Some (i, [''lat'', ''Latitude'', ''lng'', ''LNG''] ! i) \<and>
          last_match lat_alias [''lat'', ''Latitude'', ''lng'', ''LNG''] i \<and>
          lng \<lparr>lat = Some (1, ''Latitude''), lng = Some (3, ''LNG'')\<rparr> =
              Some (j, [''lat'', ''Latitude'', ''lng'', ''LNG''] ! j) \<and>
          last_match lng_alias [''lat'', ''Latitude'', ''lng'', ''LNG''] j)"
proof -
  have h: "get_latlon_names index_repr [''lat'', ''Latitude'', ''lng'', ''LNG''] =
     Inr \<lparr>lat = Some (1, ''Latitude''), lng = Some (3, ''LNG'')\<rparr>"
    by (simp add: get_latlon_names_def lower_def lower_char_def)
  from resolver_last_match [OF h] h show ?thesis by simp
qed

text \<open>
  Claim C3 as stated fails: in the header \<open>lat, Latitude, lng\<close> the first latitude
  alias is column 0, and the resolver returns column 1.
\<close>

theorem resolver_first_match_counterexample:
  "first_match lat_alias [''lat'', ''Latitude'', ''lng''] 0 \<and>
   get_latlon_names index_repr [''lat'', ''Latitude'', ''lng''] =
     Inr \<lparr>lat = Some (1, ''Latitude''), lng = Some (2, ''lng'')\<rparr>"
  by (simp add: first_match_def lat_alias_def get_latlon_names_def lower_def lower_char_def)

text \<open>
  Claim C4. When exactly one column of the header is a latitude alias (position \<open>i\<close>)
  and exactly one is a longitude alias (position \<open>j\<close>), the resolver returns the pair
  (index, name) of each, \<open>(i, columns ! i)\<close> and \<open>(j, columns ! j)\<close>; nothing is
  assumed about which of \<open>i\<close> and \<open>j\<close> comes first.
\<close>

theorem resolver_unique_pair:
  assumes "i < length columns" and "lat_alias (columns ! i)"
    and "\<forall>k < length columns. lat_alias (columns ! k) \<longrightarrow> k = i"
    and "j < length columns" and "lng_alias (columns ! j)"
    and "\<forall>k < length columns. lng_alias (columns ! k) \<longrightarrow> k = j"
  shows "get_latlon_names str_index columns =
           Inr \<lparr>lat = Some (i, columns ! i), lng = Some (j, columns ! j)\<rparr>"
proof -
  have "\<exists>x \<in> set columns. lat_alias x" "\<exists>x \<in> set columns. lng_alias x"
    using assms(1,2,4,5) nth_mem by blast+
  then obtain r where r: "get_latlon_names str_index columns = Inr r"
    using resolver_succeeds by blast
  from resolver_result [OF r] obtain i' j' where
    *: "lat r = Some (i', columns ! i')" "last_match lat_alias columns i'"
       "lng r = Some (j', columns ! j')" "last_match lng_alias columns j'"
    by blast
  have "i' = i" using *(2) assms(3) by (simp add: last_match_def)
  moreover have "j' = j" using *(4) assms(6) by (simp add: last_match_def)
  ultimately have "r = \<lparr>lat = Some (i, columns ! i), lng = Some (j, columns ! j)\<rparr>"
    using *(1,3) by simp
  with r show ?thesis by simp
qed

theorem resolver_unique_pair_witness:
  "(1::nat) < length [''value'', ''LNG'', ''Lat''] \<and> lng_alias ([''value'', ''LNG'', ''Lat''] ! 1) \<and>
   (2::nat) < length [''value'', ''LNG'', ''Lat''] \<and> lat_alias ([''value'', ''LNG'', ''Lat''] ! 2) \<and>
   get_latlon_names index_repr [''value'', ''LNG'', ''Lat''] =
     Inr \<lparr>lat = Some (2, ''Lat''), lng = Some (1, ''LNG'')\<rparr>"
proof -
  let ?c = "[''value'', ''LNG'', ''Lat'']"
  have 1: "(2::nat) < length ?c" and 2: "lat_alias (?c ! 2)"
    and 4: "(1::nat) < length ?c" and 5: "lng_alias (?c ! 1)"
    by (simp_all add: lat_alias_def lng_alias_def lower_def lower_char_def)
  have 3: "\<forall>k < length ?c. lat_alias (?c ! k) \<longrightarrow> k = 2"
    by (simp add: lat_alias_def lower_def lower_char_def less_Suc_eq all_conj_distrib numeral_3_eq_3)
  have 6: "\<forall>k < length ?c. lng_alias (?c ! k) \<longrightarrow> k = 1"
    by (simp add: lng_alias_def lower_def lower_char_def less_Suc_eq all_conj_distrib numeral_3_eq_3)
  from resolver_unique_pair [OF 1 2 3 4 5 6, of index_repr] 1 2 4 5
  show ?thesis by simp
qed

text \<open>
  Claim C5, as amended. For every header that has a latitude alias column and no
  longitude alias column, the resolver fails with the \<open>KeyError\<close> whose message
  names longitude, \<open>Longitude is not found!\<close>, followed by the rendering of the whole
  column index.
\<close>

theorem resolver_missing_longitude:
  assumes "\<exists>x \<in> set columns. lat_alias x" and "\<forall>x \<in> set columns. \<not> lng_alias x"
  shows "get_latlon_names str_index columns =
           Inl (KeyError (''Longitude is not found! '' @ str_index columns))"
  using assms scan_lat_None [of 0 columns "\<lparr>lat = None, lng = None\<rparr>"]
    scan_lng_None [of 0 columns "\<lparr>lat = None, lng = None\<rparr>"]
  by (auto simp: get_latlon_names_def Let_def)

theorem resolver_missing_longitude_witness:
  "get_latlon_names index_repr [''Latitude'', ''value''] =
     Inl (KeyError ''Longitude is not found! Index(['Latitude', 'value'], dtype='object')'')"
proof -
  have 1: "\<exists>x \<in> set [''Latitude'', ''value'']. lat_alias x"
    by (simp add: lat_alias_def lower_def lower_char_def)
  have 2: "\<forall>x \<in> set [''Latitude'', ''value'']. \<not> lng_alias x"
    by (simp add: lng_alias_def lower_def lower_char_def)
  from resolver_missing_longitude [OF 1 2, of index_repr]
  show ?thesis by (simp add: index_repr_def)
qed

text \<open>
  Claim C5 as stated fails: the latitude check comes first, so a header that lacks both
  axes (here the single column \<open>value\<close>, no longitude alias) gets the error that names
  latitude.
\<close>

theorem resolver_missing_both_counterexample:
  "\<not> lng_alias ''value'' \<and>
   get_latlon_names index_repr [''value''] =
     Inl (KeyError ''Latitude is not found! Index(['value'], dtype='object')'')"
  by (simp add: lng_alias_def get_latlon_names_def lower_def lower_char_def index_repr_def)


section \<open>The stages of a conversion\<close>

lemma read_points_Inr:
  assumes "read_points env self df0 = Inr (df, geom)"
  shows "\<exists>names i j lat_name lng_name xs ys.
           get_latlon_names (format_index env) (map fst df0) = Inr names \<and>
           lat names = Some (i, lat_name) \<and> lng names = Some (j, lng_name) \<and>
           column df0 lng_name = Inr xs \<and> column df0 lat_name = Inr ys \<and>
           df = drop_columns df0 [lat_name, lng_name] \<and> geom = zip xs ys \<and>
           epsg_known env (crs_code self)"
  using assms
  by (auto simp: read_points_def split: sum.splits option.splits if_splits)

lemma convert_csv_Inr:
  assumes "convert_csv env self inp out fs = (Inr (), self', fs')"
  shows "\<exists>df0 df geom bbox nxy dst0 dst.
           read_csv fs inp = Inr df0 \<and> read_points env self df0 = Inr (df, geom) \<and>
           grid_size env (resolution self) geom = Inr (bbox, nxy) \<and>
           rasterio_open env out (make_profile env self df bbox nxy) = Inr dst0 \<and>
           write_bands env 0 (map fst df) df geom nxy
             (transform (make_profile env self df bbox nxy))
             (nodata (make_profile env self df bbox nxy)) dst0 = (None, dst) \<and>
           self' = self \<and> fs' = fs(out \<mapsto> Tif dst)"
  using assms
  by (auto simp: convert_csv_def Let_def split: sum.splits prod.splits option.splits)

lemma read_csv_Inr: "read_csv fs inp = Inr df \<longleftrightarrow> fs inp = Some (Csv df)"
  by (auto simp: read_csv_def split: option.splits fs_entry.splits)

lemma rasterio_open_Inr:
  "rasterio_open env out prof = Inr dst \<Longrightarrow>
     dst = \<lparr>ds_profile = prof, ds_bands = Map.empty\<rparr> \<and>
     1 \<le> width prof \<and> 1 \<le> height prof \<and> 1 \<le> count prof \<and> creatable env out"
  by (auto simp: rasterio_open_def split: if_splits)

lemma write_bands_None:
  "write_bands env i names gdf geom nxy t v dst = (None, dst') \<Longrightarrow>
     ds_profile dst' = ds_profile dst \<and>
     (\<forall>k < length names. \<exists>zs z. column gdf (names ! k) = Inr zs \<and>
          rasterize env (zip geom zs) nxy t v = Inr z \<and>
          ds_bands dst' (Suc (i + k)) = Some (written env (ds_profile dst) z)) \<and>
     (\<forall>n. n \<le> i \<or> i + length names < n \<longrightarrow> ds_bands dst' n = ds_bands dst n)"
proof (induction names arbitrary: i dst)
  case Nil
  then show ?case by simp
next
  case (Cons z_name names)
  from Cons.prems obtain zs z where
    zs: "column gdf z_name = Inr zs" and z: "rasterize env (zip geom zs) nxy t v = Inr z"
    and rest: "write_bands env (Suc i) names gdf geom nxy t v
                 (dst\<lparr>ds_bands := (ds_bands dst)(Suc i \<mapsto> written env (ds_profile dst) z)\<rparr>) =
               (None, dst')"
    by (auto split: sum.splits)
  note IH = Cons.IH [OF rest]
  have prof: "ds_profile dst' = ds_profile dst"
    using IH by simp
  have keep: "\<And>n. n \<le> Suc i \<or> Suc i + length names < n \<Longrightarrow>
      ds_bands dst' n = ((ds_bands dst)(Suc i \<mapsto> written env (ds_profile dst) z)) n"
    using IH by auto
  have bands: "\<exists>zs z. column gdf ((z_name # names) ! k) = Inr zs \<and>
          rasterize env (zip geom zs) nxy t v = Inr z \<and>
          ds_bands dst' (Suc (i + k)) = Some (written env (ds_profile dst) z)"
    if "k < length (z_name # names)" for k
  proof (cases k)
    case 0
    then show ?thesis using zs z keep [of "Suc i"] by simp
  next
    case (Suc k')
    then have "k' < length names" using that by simp
    with IH Suc show ?thesis by simp
  qed
  have other: "ds_bands dst' n = ds_bands dst n"
    if "n \<le> i \<or> i + length (z_name # names) < n" for n
    using keep [of n] that by auto
  from prof bands other show ?case by blast
qed

lemma column_distinct:
  "distinct (map fst df) \<Longrightarrow> col \<in> set df \<Longrightarrow> column df (fst col) = Inr (snd col)"
  by (cases col) (simp add: column_def)

lemma length_drop_one:
  "distinct (map fst df) \<Longrightarrow> n \<in> set (map fst df) \<Longrightarrow>
     length (filter (\<lambda>col. fst col \<noteq> n) df) = length df - 1"
proof (induction df)
  case Nil
  then show ?case by simp
next
  case (Cons col df)
  show ?case
  proof (cases "fst col = n")
    case True
    then have "n \<notin> fst ` set df" using Cons.prems by simp
    then have "\<forall>c \<in> set df. fst c \<noteq> n" by (auto simp: image_iff)
    then have "filter (\<lambda>col. fst col \<noteq> n) df = df" by (simp add: filter_id_conv)
    with True show ?thesis by simp
  next
    case False
    then have "n \<in> set (map fst df)" using Cons.prems by auto
    then have "df \<noteq> []" by auto
    with False Cons show ?thesis by (cases df) auto
  qed
qed

lemma length_drop_columns:
  assumes "distinct (map fst df)" and "a \<in> set (map fst df)" and "b \<in> set (map fst df)"
    and "a \<noteq> b"
  shows "length (drop_columns df [a, b]) = length df - 2"
proof -
  let ?d = "filter (\<lambda>col. fst col \<noteq> a) df"
  have e: "drop_columns df [a, b] = filter (\<lambda>col. fst col \<noteq> b) ?d"
    by (auto simp: drop_columns_def intro: filter_cong)
  have "distinct (map fst ?d)" using assms(1) by (simp add: distinct_map_filter)
  moreover have "b \<in> set (map fst ?d)" using assms(3,4) by auto
  ultimately have "length (filter (\<lambda>col. fst col \<noteq> b) ?d) = length ?d - 1"
    by (rule length_drop_one)
  also have "length ?d = length df - 1" using assms(1,2) by (rule length_drop_one)
  finally show ?thesis using e by simp
qed

lemma distinct_drop_columns:
  "distinct (map fst df) \<Longrightarrow> distinct (map fst (drop_columns df names))"
  by (simp add: drop_columns_def distinct_map_filter)

lemma column_drop_columns:
  assumes "distinct (map fst df)" and "k < length (drop_columns df names)"
  shows "column df (fst (drop_columns df names ! k)) = Inr (snd (drop_columns df names ! k))"
proof -
  have "drop_columns df names ! k \<in> set df"
    using nth_mem [OF assms(2)] by (auto simp: drop_columns_def)
  with assms(1) show ?thesis by (rule column_distinct)
qed


section \<open>The grid size\<close>

lemma float64_0: "float64 env 0 = 0"
  by (simp add: float64_def)

lemma float64_equator: "float64 equator_env x = x"
  by (simp add: float64_def equator_env_def)

lemma trunc_towards_zero:
  "\<bar>real_of_int (trunc x)\<bar> \<le> \<bar>x\<bar> \<and> \<bar>x\<bar> < \<bar>real_of_int (trunc x)\<bar> + 1 \<and>
   0 \<le> x * real_of_int (trunc x)"
proof (cases "0 \<le> x")
  case True
  then have "0 \<le> \<lfloor>x\<rfloor>" by simp
  moreover have "real_of_int \<lfloor>x\<rfloor> \<le> x" "x < real_of_int \<lfloor>x\<rfloor> + 1" by linarith+
  ultimately show ?thesis using True by (simp add: trunc_def)
next
  case False
  then have "\<lceil>x\<rceil> \<le> 0" by simp
  moreover have "x \<le> real_of_int \<lceil>x\<rceil>" "real_of_int \<lceil>x\<rceil> < x + 1" by linarith+
  ultimately show ?thesis using False
    by (simp add: trunc_def mult_nonpos_nonpos)
qed

lemma grid_size_Cons:
  assumes "unit0 = float64 env (snd (inverse_haversine env (snd g0, fst g0) res EAST) - fst g0)"
    and "unit1 = float64 env (fst (inverse_haversine env (snd g0, fst g0) res NORTH) - snd g0)"
    and "unit0 \<noteq> 0" and "unit1 \<noteq> 0"
    and "total_bounds (g0 # rest) = (b0, b1, b2, b3)"
  shows "grid_size env res (g0 # rest) =
           Inr ((b0, b1, b2, b3),
                (trunc (float64 env (float64 env (b2 - b0) / unit0)),
                 trunc (float64 env (float64 env (b3 - b1) / unit1))))"
  using assms by (simp add: grid_size_def int_quotient_def Let_def)

text \<open>
  Claim C6. For a table whose points \<open>geom\<close> (in row order) are not empty, the
  reference point of the two geodesic offsets is the first row \<open>g0\<close>. The grid width
  is \<open>max_lon - min_lon\<close> divided by the longitude delta \<open>unit0\<close> of the east offset,
  truncated towards zero, and the grid height is \<open>max_lat - min_lat\<close> divided by the
  latitude delta \<open>unit1\<close> of the north offset, truncated towards zero; the
  differences and the quotients \<open>q0\<close> and \<open>q1\<close> are those of the doubles, and what
  is truncated is the double quotient. The deltas are taken different from zero, as
  dividing by them needs.
\<close>

theorem grid_size_first_point:
  assumes "read_points env self df0 = Inr (df, geom)"
    and "geom = g0 # rest"
    and "unit0 = float64 env (snd (inverse_haversine env (snd g0, fst g0) res EAST) - fst g0)"
    and "unit1 = float64 env (fst (inverse_haversine env (snd g0, fst g0) res NORTH) - snd g0)"
    and "unit0 \<noteq> 0" and "unit1 \<noteq> 0"
    and "min_lon = Min (set (map fst geom))" and "max_lon = Max (set (map fst geom))"
    and "min_lat = Min (set (map snd geom))" and "max_lat = Max (set (map snd geom))"
    and "q0 = float64 env (float64 env (max_lon - min_lon) / unit0)"
    and "q1 = float64 env (float64 env (max_lat - min_lat) / unit1)"
  shows "\<exists>lat_name lng_name xs ys nx ny.
           lat_alias lat_name \<and> lng_alias lng_name \<and>
           column df0 lng_name = Inr xs \<and> column df0 lat_name = Inr ys \<and>
           geom = zip xs ys \<and> g0 = (xs ! 0, ys ! 0) \<and>
           grid_size env res geom = Inr ((min_lon, min_lat, max_lon, max_lat), (nx, ny)) \<and>
           nx = trunc q0 \<and> ny = trunc q1 \<and>
           \<bar>real_of_int nx\<bar> \<le> \<bar>q0\<bar> \<and> \<bar>q0\<bar> < \<bar>real_of_int nx\<bar> + 1 \<and>
           0 \<le> q0 * real_of_int nx \<and>
           \<bar>real_of_int ny\<bar> \<le> \<bar>q1\<bar> \<and> \<bar>q1\<bar> < \<bar>real_of_int ny\<bar> + 1 \<and>
           0 \<le> q1 * real_of_int ny"
proof -
  from read_points_Inr [OF assms(1)] obtain names i j lat_name lng_name xs ys where
    n: "get_latlon_names (format_index env) (map fst df0) = Inr names"
      "lat names = Some (i, lat_name)" "lng names = Some (j, lng_name)"
    and c: "column df0 lng_name = Inr xs" "column df0 lat_name = Inr ys"
    and g: "geom = zip xs ys"
    by blast
  from resolver_result [OF n(1)] n(2,3)
  have a: "lat_alias lat_name" "lng_alias lng_name"
    by (auto simp: last_match_def)
  from g assms(2) have g0: "g0 = (xs ! 0, ys ! 0)"
    by (cases xs; cases ys) auto
  have tb: "total_bounds (g0 # rest) = (min_lon, min_lat, max_lon, max_lat)"
    using assms(2,7-10) by (simp add: total_bounds_def)
  have gs: "grid_size env res geom =
      Inr ((min_lon, min_lat, max_lon, max_lat), (trunc q0, trunc q1))"
    unfolding assms(2) assms(11,12) using assms(3-6) tb by (rule grid_size_Cons)
  from a c g g0 gs trunc_towards_zero [of q0] trunc_towards_zero [of q1]
  show ?thesis by blast
qed

lemma read_points_four:
  "read_points equator_env (init [] 4326 100) four_points =
     Inr ([(''a'', [1, 2, 3, 4]), (''b'', [5, 6, 7, 8])],
          [(0, 0), (1 / 400, 7 / 2000), (1 / 2000, 3 / 1000),
           (3 / 5000, 31 / 10000)])"
  by (simp add: read_points_def get_latlon_names_def lower_def lower_char_def four_points_def
      column_def drop_columns_def equator_env_def init_def)

theorem grid_size_first_point_witness:
  "read_points equator_env (init [] 4326 100) four_points =
     Inr ([(''a'', [1, 2, 3, 4]), (''b'', [5, 6, 7, 8])],
          [(0, 0), (1 / 400, 7 / 2000), (1 / 2000, 3 / 1000),
           (3 / 5000, 31 / 10000)]) \<and>
   grid_size equator_env 100
      [(0, 0), (1 / 400, 7 / 2000), (1 / 2000, 3 / 1000),
       (3 / 5000, 31 / 10000)] =
     Inr ((0, 0, 1 / 400, 7 / 2000), (2, 3))"
proof -
  let ?geom = "[(0, 0), (1 / 400, 7 / 2000), (1 / 2000, 3 / 1000),
       (3 / 5000, 31 / 10000)] :: point list"
  have u0: "(100 / 111195 :: real) =
      float64 equator_env
        (snd (inverse_haversine equator_env (snd (0 :: real, 0 :: real), fst (0 :: real, 0 :: real))
             100 EAST) - fst (0 :: real, 0 :: real))"
    by (simp add: float64_equator) (simp add: equator_env_def)
  have u1: "(100 / 111195 :: real) =
      float64 equator_env
        (fst (inverse_haversine equator_env (snd (0 :: real, 0 :: real), fst (0 :: real, 0 :: real))
             100 NORTH) - snd (0 :: real, 0 :: real))"
    by (simp add: float64_equator) (simp add: equator_env_def)
  have nz: "(100 / 111195 :: real) \<noteq> 0" by simp
  have m: "(0 :: real) = Min (set (map fst ?geom))" "(1 / 400 :: real) = Max (set (map fst ?geom))"
    "(0 :: real) = Min (set (map snd ?geom))" "(7 / 2000 :: real) = Max (set (map snd ?geom))"
    by simp_all
  from grid_size_first_point [OF read_points_four refl u0 u1 nz nz m(1) m(2) m(3) m(4) refl refl]
  obtain nx ny where
    g: "grid_size equator_env 100 ?geom = Inr ((0, 0, 1 / 400, 7 / 2000), (nx, ny))"
    and nx: "nx = trunc (float64 equator_env (float64 equator_env (1 / 400 - 0) / (100 / 111195)))"
    and ny: "ny = trunc (float64 equator_env (float64 equator_env (7 / 2000 - 0) / (100 / 111195)))"
    by blast
  have "nx = 2" unfolding nx by (simp add: float64_equator trunc_def)
  moreover have "ny = 3" unfolding ny by (simp add: float64_equator trunc_def)
  ultimately show ?thesis using g read_points_four by simp
qed

section \<open>The output raster\<close>

lemma convert_csv_result:
  assumes "convert_csv env self inp out fs = (Inr (), self', fs')"
    and "fs inp = Some (Csv df0)"
    and "distinct (map fst df0)"
  shows "\<exists>names i j lat_name lng_name df geom bbox nxy dst.
     get_latlon_names (format_index env) (map fst df0) = Inr names \<and>
     lat names = Some (i, lat_name) \<and> lng names = Some (j, lng_name) \<and>
     read_points env self df0 = Inr (df, geom) \<and>
     df = filter (\<lambda>col. fst col \<noteq> lat_name \<and> fst col \<noteq> lng_name) df0 \<and>
     length df = length df0 - 2 \<and>
     grid_size env (resolution self) geom = Inr (bbox, nxy) \<and>
     fs' out = Some (Tif dst) \<and>
     ds_profile dst = make_profile env self df bbox nxy \<and>
     count (ds_profile dst) = length df0 - 2 \<and>
     dtype (ds_profile dst) = ''float32'' \<and>
     nodata (ds_profile dst) = - 9999 \<and>
     crs (ds_profile dst) = ''EPSG:'' @ str_int (crs_code self) \<and>
     (\<forall>n. ds_bands dst n \<noteq> None \<longleftrightarrow> 1 \<le> n \<and> n \<le> length df0 - 2) \<and>
     (\<forall>k < length df. \<exists>z.
        rasterize env (zip geom (snd (df ! k))) nxy (transform (ds_profile dst)) (- 9999) = Inr z \<and>
        ds_bands dst (Suc k) = Some (written env (ds_profile dst) z))"
proof -
  from convert_csv_Inr [OF assms(1)] obtain df0' df geom bbox nxy dst0 dst where
    rd: "read_csv fs inp = Inr df0'"
    and rp': "read_points env self df0' = Inr (df, geom)"
    and gs: "grid_size env (resolution self) geom = Inr (bbox, nxy)"
    and op: "rasterio_open env out (make_profile env self df bbox nxy) = Inr dst0"
    and wb: "write_bands env 0 (map fst df) df geom nxy
             (transform (make_profile env self df bbox nxy))
             (nodata (make_profile env self df bbox nxy)) dst0 = (None, dst)"
    and fs': "fs' = fs(out \<mapsto> Tif dst)"
    by blast
  let ?prof = "make_profile env self df bbox nxy"
  from rd assms(2) have "df0' = df0" by (simp add: read_csv_Inr)
  with rp' have rp: "read_points env self df0 = Inr (df, geom)" by simp
  from read_points_Inr [OF rp] obtain names i j lat_name lng_name where
    n: "get_latlon_names (format_index env) (map fst df0) = Inr names"
      "lat names = Some (i, lat_name)" "lng names = Some (j, lng_name)"
    and df: "df = drop_columns df0 [lat_name, lng_name]"
    by blast
  from resolver_result [OF n(1)] n(2,3)
  have a: "lat_alias lat_name" "lng_alias lng_name"
    and mem: "lat_name \<in> set (map fst df0)" "lng_name \<in> set (map fst df0)"
    by (auto simp: last_match_def)
  from a alias_disjoint have ne: "lat_name \<noteq> lng_name" by auto
  have len: "length df = length df0 - 2"
    unfolding df using assms(3) mem ne by (rule length_drop_columns)
  have dfil: "df = filter (\<lambda>col. fst col \<noteq> lat_name \<and> fst col \<noteq> lng_name) df0"
    by (simp add: df drop_columns_def)
  have dst0: "dst0 = \<lparr>ds_profile = ?prof, ds_bands = Map.empty\<rparr>"
    using rasterio_open_Inr [OF op] by simp
  note w = write_bands_None [OF wb]
  have prof: "ds_profile dst = ?prof" using w dst0 by simp
  have pf: "count ?prof = length df" "dtype ?prof = ''float32''" "nodata ?prof = - 9999"
    "crs ?prof = ''EPSG:'' @ str_int (crs_code self)"
    by (simp_all add: make_profile_def split: prod.splits)
  have dd: "distinct (map fst df)"
    unfolding df using assms(3) by (rule distinct_drop_columns)
  have band: "\<exists>z.
        rasterize env (zip geom (snd (df ! k))) nxy (transform (ds_profile dst)) (- 9999) = Inr z \<and>
        ds_bands dst (Suc k) = Some (written env (ds_profile dst) z)"
    if k: "k < length df" for k
  proof -
    from w k obtain zs z where
      c: "column df (map fst df ! k) = Inr zs"
      and r: "rasterize env (zip geom zs) nxy (transform ?prof) (nodata ?prof) = Inr z"
      and b: "ds_bands dst (Suc (0 + k)) = Some (written env (ds_profile dst0) z)"
      by (metis length_map)
    have "column df (fst (df ! k)) = Inr (snd (df ! k))"
      using dd nth_mem [OF k] by (rule column_distinct)
    with c k have "zs = snd (df ! k)" by simp
    with r b prof pf(3) dst0 show ?thesis by simp
  qed
  have dom: "ds_bands dst n \<noteq> None \<longleftrightarrow> 1 \<le> n \<and> n \<le> length df0 - 2" for n
  proof (cases "1 \<le> n \<and> n \<le> length df")
    case True
    then obtain k where "n = Suc k" "k < length df" by (cases n) auto
    with band [of k] True len show ?thesis by auto
  next
    case False
    then have "n \<le> 0 \<or> 0 + length (map fst df) < n" by auto
    with w have "ds_bands dst n = ds_bands dst0 n" by blast
    with dst0 False len show ?thesis by simp
  qed
  have out: "fs' out = Some (Tif dst)" by (simp add: fs')
  from n rp dfil len gs out prof pf band dom show ?thesis
    by (intro exI [of _ names] exI [of _ i] exI [of _ j] exI [of _ lat_name]
        exI [of _ lng_name] exI [of _ df] exI [of _ geom] exI [of _ bbox] exI [of _ nxy]
        exI [of _ dst]) simp
qed

text \<open>
  Claim C8. When the conversion of a table \<open>df0\<close>, with distinct column names,
  returns, the file at the output path is a raster whose profile has band count
  \<open>length df0 - 2\<close>, sample type \<open>float32\<close>, nodata value \<open>-9999\<close> and the CRS
  tag \<open>EPSG:\<close> followed by the caller's code; the bands written are exactly
  \<open>1\<close> to \<open>length df0 - 2\<close>, and band \<open>k + 1\<close> is what the library stores for
  the array rasterized, with the fill value \<open>-9999\<close>, from column \<open>k\<close> of the table
  without its two coordinate columns, the others being kept in their order.
\<close>

theorem convert_csv_output:
  assumes "convert_csv env self inp out fs = (Inr (), self', fs')"
    and "fs inp = Some (Csv df0)"
    and "distinct (map fst df0)"
  shows "\<exists>names i j lat_name lng_name df geom bbox nxy dst.
     get_latlon_names (format_index env) (map fst df0) = Inr names \<and>
     lat names = Some (i, lat_name) \<and> lng names = Some (j, lng_name) \<and>
     read_points env self df0 = Inr (df, geom) \<and>
     df = filter (\<lambda>col. fst col \<noteq> lat_name \<and> fst col \<noteq> lng_name) df0 \<and>
     length df = length df0 - 2 \<and>
     grid_size env (resolution self) geom = Inr (bbox, nxy) \<and>
     fs' out = Some (Tif dst) \<and>
     ds_profile dst = make_profile env self df bbox nxy \<and>
     count (ds_profile dst) = length df0 - 2 \<and>
     dtype (ds_profile dst) = ''float32'' \<and>
     nodata (ds_profile dst) = - 9999 \<and>
     crs (ds_profile dst) = ''EPSG:'' @ str_int (crs_code self) \<and>
     (\<forall>n. ds_bands dst n \<noteq> None \<longleftrightarrow> 1 \<le> n \<and> n \<le> length df0 - 2) \<and>
     (\<forall>k < length df. \<exists>z.
        rasterize env (zip geom (snd (df ! k))) nxy (transform (ds_profile dst)) (- 9999) = Inr z \<and>
        ds_bands dst (Suc k) = Some (written env (ds_profile dst) z))"
  using assms by (rule convert_csv_result)

lemma read_points_square:
  "read_points equator_env (init [] 4326 100) square_points =
     Inr ([(''a'', [1, 2, 3, 4]), (''b'', [5, 6, 7, 8])],
          [(0, 0), (1 / 400, 1 / 400), (1 / 2000, 1 / 2000), (3 / 5000, 3 / 5000)])"
  by (simp add: read_points_def get_latlon_names_def lower_def lower_char_def square_points_def
      column_def drop_columns_def equator_env_def init_def)

lemma grid_size_square:
  "grid_size equator_env 100
      [(0, 0), (1 / 400, 1 / 400), (1 / 2000, 1 / 2000), (3 / 5000, 3 / 5000)] =
     Inr ((0, 0, 1 / 400, 1 / 400), (2, 2))"
  by (simp add: grid_size_def total_bounds_def int_quotient_def float64_equator trunc_def Let_def)
     (simp add: equator_env_def)

lemma from_bounds_square:
  "from_bounds equator_env 0 0 (1 / 400) (1 / 400) 2 2 =
     \<lparr>aff_a = 1 / 800, aff_b = 0, aff_c = 0, aff_d = 0, aff_e = - (1 / 800), aff_f = 1 / 400\<rparr>"
  by (simp add: from_bounds_def float64_equator)

lemma rasterize_square:
  "rasterize equator_env
     [((0, 0), v1), ((1 / 400, 1 / 400), v2), ((1 / 2000, 1 / 2000), v3),
      ((3 / 5000, 3 / 5000), v4)] (2, 2)
     \<lparr>aff_a = 1 / 800, aff_b = 0, aff_c = 0, aff_d = 0, aff_e = - (1 / 800), aff_f = 1 / 400\<rparr>
     (- 9999) =
   Inr [[- 9999, - 9999], [v4, - 9999]]"
proof -
  have p: "pixel_of equator_env = exact_pixel"
    by (simp add: equator_env_def)
  show ?thesis
    by (simp add: rasterize_def p full_def burn_def Let_def exact_pixel_def numeral_2_eq_2)
qed

lemma profile_square:
  "make_profile equator_env (init [] 4326 100) [(''a'', [1, 2, 3, 4]), (''b'', [5, 6, 7, 8])]
      (0, 0, 1 / 400, 1 / 400) (2, 2) =
     \<lparr>driver = ''GTiff'', width = 2, height = 2, count = 2, dtype = ''float32'',
      crs = ''EPSG:4326'',
      transform = \<lparr>aff_a = 1 / 800, aff_b = 0, aff_c = 0, aff_d = 0, aff_e = - (1 / 800),
                   aff_f = 1 / 400\<rparr>,
      nodata = - 9999\<rparr>"
  by (simp add: make_profile_def init_def str_int_def from_bounds_square)

lemma creatable_eq: "creatable equator_env p"
  by (simp add: equator_env_def)

lemma written_eq: "written equator_env prof arr = arr"
  by (simp add: equator_env_def)

lemma convert_square:
  "convert_csv equator_env (init [] 4326 100) ''a.csv'' ''a.tif''
       [''a.csv'' \<mapsto> Csv square_points] =
     (Inr (), init [] 4326 100,
      [''a.csv'' \<mapsto> Csv square_points,
       ''a.tif'' \<mapsto> Tif \<lparr>ds_profile =
          \<lparr>driver = ''GTiff'', width = 2, height = 2, count = 2, dtype = ''float32'',
           crs = ''EPSG:4326'',
           transform = \<lparr>aff_a = 1 / 800, aff_b = 0, aff_c = 0, aff_d = 0,
                        aff_e = - (1 / 800), aff_f = 1 / 400\<rparr>,
           nodata = - 9999\<rparr>,
          ds_bands = [Suc 0 \<mapsto> [[- 9999, - 9999], [4, - 9999]],
                      Suc (Suc 0) \<mapsto> [[- 9999, - 9999], [8, - 9999]]]\<rparr>])"
proof -
  have res: "resolution (init [] 4326 100) = 100"
    by (simp add: init_def)
  show ?thesis
    by (simp add: convert_csv_def read_csv_def res read_points_square grid_size_square
        profile_square rasterio_open_def creatable_eq written_eq column_def rasterize_square)
qed

theorem convert_csv_output_witness:
  "fst (convert_csv equator_env (init [] 4326 100) ''a.csv'' ''a.tif''
          [''a.csv'' \<mapsto> Csv square_points]) = Inr () \<and>
   distinct (map fst square_points) \<and>
   (\<exists>dst. snd (snd (convert_csv equator_env (init [] 4326 100) ''a.csv'' ''a.tif''
                    [''a.csv'' \<mapsto> Csv square_points])) ''a.tif'' = Some (Tif dst) \<and>
      count (ds_profile dst) = 2 \<and> dtype (ds_profile dst) = ''float32'' \<and>
      nodata (ds_profile dst) = - 9999 \<and> crs (ds_profile dst) = ''EPSG:4326'' \<and>
      ds_bands dst 0 = None \<and> ds_bands dst 1 \<noteq> None \<and> ds_bands dst 2 \<noteq> None \<and>
      ds_bands dst 3 = None)"
proof -
  obtain fs' where
    c: "convert_csv equator_env (init [] 4326 100) ''a.csv'' ''a.tif''
          [''a.csv'' \<mapsto> Csv square_points] = (Inr (), init [] 4326 100, fs')"
    using convert_square by blast
  have 2: "[''a.csv'' \<mapsto> Csv square_points] ''a.csv'' = Some (Csv square_points)"
    by simp
  have 3: "distinct (map fst square_points)"
    by (simp add: square_points_def)
  have 4: "length square_points - 2 = 2"
    by (simp add: square_points_def)
  have 5: "''EPSG:'' @ str_int (crs_code (init [] 4326 100)) = ''EPSG:4326''"
    by (simp add: init_def str_int_def)
  from convert_csv_output [OF c 2 3] obtain dst where
    "fs' ''a.tif'' = Some (Tif dst)"
    and "count (ds_profile dst) = length square_points - 2"
    and "dtype (ds_profile dst) = ''float32''"
    and "nodata (ds_profile dst) = - 9999"
    and "crs (ds_profile dst) = ''EPSG:'' @ str_int (crs_code (init [] 4326 100))"
    and d: "\<forall>n. ds_bands dst n \<noteq> None \<longleftrightarrow> 1 \<le> n \<and> n \<le> length square_points - 2"
    by blast
  moreover have "ds_bands dst 0 = None" "ds_bands dst 1 \<noteq> None" "ds_bands dst 2 \<noteq> None"
    "ds_bands dst 3 = None"
    using d [rule_format, of 0] d [rule_format, of 1] d [rule_format, of 2]
      d [rule_format, of 3] unfolding 4 by simp_all
  ultimately show ?thesis
    unfolding 4 5 using c 3 by (intro conjI exI [of _ dst]) simp_all
qed

section \<open>Burning points into a band\<close>

lemma burn_length: "length (burn rc v out) = length out"
  by (simp add: burn_def Let_def)

lemma burn_row_length: "length (burn rc v out ! k) = length (out ! k)"
  by (cases "k = nat (fst rc)") (auto simp: burn_def Let_def)

lemma burn_cell:
  assumes "r < length out" and "c < length (out ! r)"
  shows "burn rc v out ! r ! c = (if rc = (int r, int c) then v else out ! r ! c)"
proof (cases "rc = (int r, int c)")
  case True
  with assms show ?thesis by (simp add: burn_def Let_def)
next
  case False
  show ?thesis
  proof (cases "0 \<le> fst rc \<and> fst rc < int (length out) \<and> 0 \<le> snd rc \<and>
      snd rc < int (length (out ! nat (fst rc)))")
    case inside: True
    show ?thesis
    proof (cases "nat (fst rc) = r")
      case True
      with inside False have "nat (snd rc) \<noteq> c" by (cases rc) auto
      with True inside assms False show ?thesis by (simp add: burn_def Let_def)
    next
      case False
      with inside \<open>rc \<noteq> (int r, int c)\<close> show ?thesis by (simp add: burn_def Let_def)
    qed
  next
    case False
    with \<open>rc \<noteq> (int r, int c)\<close> show ?thesis by (auto simp: burn_def Let_def)
  qed
qed

lemma fold_burn_cell:
  assumes "r < length out" and "c < length (out ! r)"
  shows "fold (\<lambda>shape. burn (p (fst shape)) (snd shape)) shapes out ! r ! c =
           (case map_of (rev (map (\<lambda>shape. (p (fst shape), snd shape)) shapes)) (int r, int c) of
              None \<Rightarrow> out ! r ! c
            | Some v \<Rightarrow> v)"
  using assms
proof (induction shapes arbitrary: out)
  case Nil
  show ?case by simp
next
  case (Cons s shapes)
  let ?out = "burn (p (fst s)) (snd s) out"
  have "r < length ?out" "c < length (?out ! r)"
    using Cons.prems by (simp_all add: burn_length burn_row_length)
  from Cons.IH [OF this] burn_cell [OF Cons.prems, of "p (fst s)" "snd s"]
  show ?case
    by (auto split: option.splits)
qed

lemma map_of_rev_last:
  assumes "j < length xs" and "fst (xs ! j) = k"
    and "\<forall>m. j < m \<and> m < length xs \<longrightarrow> fst (xs ! m) \<noteq> k"
  shows "map_of (rev xs) k = Some (snd (xs ! j))"
  using assms
proof (induction xs rule: rev_induct)
  case Nil
  then show ?case by simp
next
  case (snoc x xs)
  show ?case
  proof (cases "j = length xs")
    case True
    with snoc.prems show ?thesis by (cases x) auto
  next
    case False
    with snoc.prems have j: "j < length xs" by simp
    with snoc.prems have "fst x \<noteq> k"
      by (auto dest: spec [of _ "length xs"])
    moreover have "map_of (rev xs) k = Some (snd (xs ! j))"
      using snoc.prems j by (intro snoc.IH) (auto simp: nth_append split: if_splits)
    ultimately show ?thesis using j by (cases x) (auto simp: nth_append)
  qed
qed

lemma rasterize_cell:
  assumes "rasterize env shapes nxy t v = Inr z"
    and "0 \<le> r" and "r < fst nxy" and "0 \<le> c" and "c < snd nxy"
  shows "z ! nat r ! nat c =
           (case map_of (rev (map (\<lambda>shape. (pixel_of env t (fst shape), snd shape)) shapes))
                   (r, c) of
              None \<Rightarrow> v
            | Some w \<Rightarrow> w)"
proof -
  let ?out = "full (nat (fst nxy)) (nat (snd nxy)) v"
  from assms(1)
  have z: "z = fold (\<lambda>shape. burn (pixel_of env t (fst shape)) (snd shape)) shapes ?out"
    by (auto simp: rasterize_def split: if_splits)
  have 1: "nat r < length ?out" using assms(2,3) by (simp add: full_def)
  then have 2: "nat c < length (?out ! nat r)" "?out ! nat r ! nat c = v"
    using assms(4,5) by (simp_all add: full_def)
  from fold_burn_cell [OF 1 2(1), of "pixel_of env t" shapes] 2(2) z assms(2,4)
  show ?thesis by (simp split: option.splits)
qed

text \<open>
  Within the array that is rasterized, the last shape of a cell wins: when row \<open>j\<close> is
  the last shape whose point is in the cell \<open>(r, c)\<close> of the array, the cell holds its
  value.
\<close>

lemma rasterize_last_wins:
  assumes "rasterize env (zip geom zs) nxy t v = Inr z"
    and "j < length geom" and "j < length zs"
    and "pixel_of env t (geom ! j) = (r, c)"
    and "\<forall>m. j < m \<and> m < length geom \<longrightarrow> pixel_of env t (geom ! m) \<noteq> (r, c)"
    and "0 \<le> r" and "r < fst nxy" and "0 \<le> c" and "c < snd nxy"
  shows "z ! nat r ! nat c = zs ! j"
proof -
  let ?xs = "map (\<lambda>shape. (pixel_of env t (fst shape), snd shape)) (zip geom zs)"
  have len: "j < length ?xs" using assms(2,3) by simp
  have j: "fst (?xs ! j) = (r, c)" "snd (?xs ! j) = zs ! j"
    using assms(2,3,4) by simp_all
  have later: "\<forall>m. j < m \<and> m < length ?xs \<longrightarrow> fst (?xs ! m) \<noteq> (r, c)"
    using assms(5) by simp
  from map_of_rev_last [OF len j(1) later] j(2)
  have "map_of (rev ?xs) (r, c) = Some (zs ! j)" by simp
  with rasterize_cell [OF assms(1) assms(6-9)] show ?thesis by simp
qed

lemma read_points_shared:
  "read_points equator_env (init [] 4326 100) shared_cell =
     Inr ([(''a'', [1, 2, 3, 4])],
          [(0, 0), (1 / 400, 7 / 2000), (1 / 2000, 1 / 2000), (3 / 5000, 3 / 5000)])"
  by (simp add: read_points_def get_latlon_names_def lower_def lower_char_def shared_cell_def
      column_def drop_columns_def equator_env_def init_def)

lemma grid_size_shared:
  "grid_size equator_env 100
      [(0, 0), (1 / 400, 7 / 2000), (1 / 2000, 1 / 2000), (3 / 5000, 3 / 5000)] =
     Inr ((0, 0, 1 / 400, 7 / 2000), (2, 3))"
  by (simp add: grid_size_def total_bounds_def int_quotient_def float64_equator trunc_def Let_def)
     (simp add: equator_env_def)

lemma profile_shared:
  "make_profile equator_env (init [] 4326 100) [(''a'', [1, 2, 3, 4])]
      (0, 0, 1 / 400, 7 / 2000) (2, 3) =
     \<lparr>driver = ''GTiff'', width = 2, height = 3, count = 1, dtype = ''float32'',
      crs = ''EPSG:4326'',
      transform = \<lparr>aff_a = 1 / 800, aff_b = 0, aff_c = 0, aff_d = 0, aff_e = - (7 / 6000),
                   aff_f = 7 / 2000\<rparr>,
      nodata = - 9999\<rparr>"
  by (simp add: make_profile_def init_def str_int_def from_bounds_def float64_equator)

lemma pixels_shared:
  "pixel_of equator_env
     \<lparr>aff_a = 1 / 800, aff_b = 0, aff_c = 0, aff_d = 0, aff_e = - (7 / 6000), aff_f = 7 / 2000\<rparr>
     (1 / 2000, 1 / 2000) = (2, 0)"
  "pixel_of equator_env
     \<lparr>aff_a = 1 / 800, aff_b = 0, aff_c = 0, aff_d = 0, aff_e = - (7 / 6000), aff_f = 7 / 2000\<rparr>
     (3 / 5000, 3 / 5000) = (2, 0)"
  by (simp_all add: equator_env_def exact_pixel_def)

lemma rasterize_shared:
  "rasterize equator_env
     [((0, 0), 1), ((1 / 400, 7 / 2000), 2), ((1 / 2000, 1 / 2000), 3),
      ((3 / 5000, 3 / 5000), 4)] (2, 3)
     \<lparr>aff_a = 1 / 800, aff_b = 0, aff_c = 0, aff_d = 0, aff_e = - (7 / 6000), aff_f = 7 / 2000\<rparr>
     (- 9999) =
   Inr [[- 9999, - 9999, 2], [- 9999, - 9999, - 9999]]"
proof -
  have p: "pixel_of equator_env = exact_pixel"
    by (simp add: equator_env_def)
  show ?thesis
    by (simp add: rasterize_def p full_def burn_def Let_def exact_pixel_def
        numeral_2_eq_2 numeral_3_eq_3)
qed

text \<open>
  Claim C7 fails on the code. In the table \<open>shared_cell\<close>, at a resolution of 100
  metres, the grid has width 2 and height 3, and rows 3 and 4 of the table both fall
  into its cell in row 2 and column 0. The array for the band is rasterized with
  \<^verbatim>\<open>out_shape=nxy\<close>, which is (width, height) where the rasterizer reads (rows,
  columns): it has 2 rows and 3 columns, no row 2, and neither point is burnt. The
  conversion returns, and the value 4 of the later row is nowhere in the array that is
  written as the band, nor is the value 3 of the earlier one.
\<close>

theorem collision_outside_array:
  "read_points equator_env (init [] 4326 100) shared_cell =
     Inr ([(''a'', [1, 2, 3, 4])],
          [(0, 0), (1 / 400, 7 / 2000), (1 / 2000, 1 / 2000), (3 / 5000, 3 / 5000)]) \<and>
   grid_size equator_env (resolution (init [] 4326 100))
      [(0, 0), (1 / 400, 7 / 2000), (1 / 2000, 1 / 2000), (3 / 5000, 3 / 5000)] =
     Inr ((0, 0, 1 / 400, 7 / 2000), (2, 3)) \<and>
   width (make_profile equator_env (init [] 4326 100) [(''a'', [1, 2, 3, 4])]
            (0, 0, 1 / 400, 7 / 2000) (2, 3)) = 2 \<and>
   height (make_profile equator_env (init [] 4326 100) [(''a'', [1, 2, 3, 4])]
            (0, 0, 1 / 400, 7 / 2000) (2, 3)) = 3 \<and>
   pixel_of equator_env
     (transform (make_profile equator_env (init [] 4326 100) [(''a'', [1, 2, 3, 4])]
                   (0, 0, 1 / 400, 7 / 2000) (2, 3)))
     (1 / 2000, 1 / 2000) = (2, 0) \<and>
   pixel_of equator_env
     (transform (make_profile equator_env (init [] 4326 100) [(''a'', [1, 2, 3, 4])]
                   (0, 0, 1 / 400, 7 / 2000) (2, 3)))
     (3 / 5000, 3 / 5000) = (2, 0) \<and>
   rasterize equator_env
     (zip [(0, 0), (1 / 400, 7 / 2000), (1 / 2000, 1 / 2000), (3 / 5000, 3 / 5000)]
          [1, 2, 3, 4]) (2, 3)
     (transform (make_profile equator_env (init [] 4326 100) [(''a'', [1, 2, 3, 4])]
                   (0, 0, 1 / 400, 7 / 2000) (2, 3)))
     (- 9999) =
     Inr [[- 9999, - 9999, 2], [- 9999, - 9999, - 9999]] \<and>
   fst (convert_csv equator_env (init [] 4326 100) ''s.csv'' ''s.tif''
          [''s.csv'' \<mapsto> Csv shared_cell]) = Inr ()"
proof -
  have res: "resolution (init [] 4326 100) = 100"
    by (simp add: init_def)
  have w: "written equator_env prof arr = arr" for prof arr
    by (simp add: equator_env_def)
  have c: "creatable equator_env p" for p
    by (simp add: equator_env_def)
  show ?thesis
    by (simp add: convert_csv_def read_csv_def res read_points_shared grid_size_shared
        profile_shared pixels_shared rasterize_shared rasterio_open_def c w column_def)
qed

section \<open>Grids without cells\<close>

lemma trunc_0: "trunc 0 = 0"
  by (simp add: trunc_def)

lemma single_point_grid:
  assumes "grid_size env res [g] = Inr (bbox, nxy)"
  shows "nxy = (0, 0)"
  using assms
  by (cases g)
     (auto simp: grid_size_def total_bounds_def int_quotient_def float64_0 trunc_0 Let_def
      split: if_splits sum.splits)

lemma column_mem: "column df name = Inr vs \<Longrightarrow> (name, vs) \<in> set df"
  by (auto simp: column_def split: option.splits dest: map_of_SomeD)

lemma single_row_geom:
  assumes "read_points env self df0 = Inr (df, geom)"
    and "\<forall>col \<in> set df0. length (snd col) = 1"
  shows "\<exists>g. geom = [g]"
proof -
  from read_points_Inr [OF assms(1)] obtain lat_name lng_name xs ys where
    c: "column df0 lng_name = Inr xs" "column df0 lat_name = Inr ys" and g: "geom = zip xs ys"
    by blast
  from c assms(2) have "length xs = 1" "length ys = 1"
    by (auto dest!: column_mem)
  then obtain x y where "xs = [x]" "ys = [y]"
    by (auto simp: length_Suc_conv)
  with g show ?thesis by simp
qed

lemma zero_grid_refused:
  assumes "fst nxy < 1 \<or> snd nxy < 1"
  shows "rasterio_open env out (make_profile env self df bbox nxy) = Inl RasterioIOError"
  using assms by (auto simp: rasterio_open_def make_profile_def split: prod.splits)

lemma convert_csv_zero_grid:
  assumes "fs inp = Some (Csv df0)"
    and "read_points env self df0 = Inr (df, geom)"
    and "grid_size env (resolution self) geom = Inr (bbox, nxy)"
    and "fst nxy < 1 \<or> snd nxy < 1"
  shows "convert_csv env self inp out fs = (Inl RasterioIOError, self, fs)"
proof -
  have "read_csv fs inp = Inr df0" using assms(1) by (simp add: read_csv_Inr)
  with assms(2,3) zero_grid_refused [OF assms(4), of env out self df bbox]
  show ?thesis by (simp add: convert_csv_def)
qed

lemma read_points_one:
  "read_points equator_env (init [] 4326 50) one_point = Inr ([(''val'', [10])], [(139, 35)])"
  by (simp add: read_points_def get_latlon_names_def lower_def lower_char_def one_point_def
      column_def drop_columns_def equator_env_def init_def)

lemma grid_size_one:
  "grid_size equator_env 50 [(139, 35)] = Inr ((139, 35, 139, 35), (0, 0))"
  by (simp add: grid_size_def total_bounds_def int_quotient_def float64_equator trunc_def Let_def)
     (simp add: equator_env_def)

lemma resolution_50: "resolution (init [] 4326 50) = 50"
  by (simp add: init_def)

lemma read_points_same:
  "read_points equator_env (init [] 4326 100) same_latitude =
     Inr ([(''val'', [10, 20])], [(0, 0), (1 / 400, 0)])"
  by (simp add: read_points_def get_latlon_names_def lower_def lower_char_def
      same_latitude_def column_def drop_columns_def equator_env_def init_def)

lemma grid_size_same:
  "grid_size equator_env 100 [(0, 0), (1 / 400, 0)] = Inr ((0, 0, 1 / 400, 0), (2, 0))"
  by (simp add: grid_size_def total_bounds_def int_quotient_def float64_equator trunc_def Let_def)
     (simp add: equator_env_def)

text \<open>
  Claim C1, as amended. For every input table with exactly one point (each column has
  one value) and distinct column names, the bounding box has no extent, so the grid
  size, whenever it is computed, is 0 by 0; the profile asks for \<open>N\<close> bands, \<open>N\<close>
  the number of columns less the two coordinate columns, with width and height 0; and
  the conversion ends with an exception, at the latest when the raster library refuses
  to create a file without cells: no raster is written, and the file system is as
  before.
\<close>

theorem single_point_no_raster:
  assumes "fs inp = Some (Csv df0)"
    and "distinct (map fst df0)"
    and "\<forall>col \<in> set df0. length (snd col) = 1"
  shows "(\<forall>df geom bbox nxy.
            read_points env self df0 = Inr (df, geom) \<and>
            grid_size env (resolution self) geom = Inr (bbox, nxy) \<longrightarrow>
            nxy = (0, 0) \<and> width (make_profile env self df bbox nxy) = 0 \<and>
            height (make_profile env self df bbox nxy) = 0 \<and>
            count (make_profile env self df bbox nxy) = length df0 - 2) \<and>
         (\<exists>e. convert_csv env self inp out fs = (Inl e, self, fs))"
proof -
  have grid: "nxy = (0, 0)"
    if "read_points env self df0 = Inr (df, geom)"
      and "grid_size env (resolution self) geom = Inr (bbox, nxy)" for df geom bbox nxy
    using single_row_geom [OF that(1) assms(3)] that(2) single_point_grid by blast
  have cnt: "length df = length df0 - 2"
    if rp: "read_points env self df0 = Inr (df, geom)" for df geom
  proof -
    from read_points_Inr [OF rp] obtain names i j lat_name lng_name where
      n: "get_latlon_names (format_index env) (map fst df0) = Inr names"
        "lat names = Some (i, lat_name)" "lng names = Some (j, lng_name)"
      and df: "df = drop_columns df0 [lat_name, lng_name]"
      by blast
    from resolver_result [OF n(1)] n(2,3)
    have a: "lat_alias lat_name" "lng_alias lng_name"
      and mem: "lat_name \<in> set (map fst df0)" "lng_name \<in> set (map fst df0)"
      by (auto simp: last_match_def)
    from a alias_disjoint have ne: "lat_name \<noteq> lng_name" by auto
    show ?thesis unfolding df using assms(2) mem ne by (rule length_drop_columns)
  qed
  have 1: "\<forall>df geom bbox nxy.
            read_points env self df0 = Inr (df, geom) \<and>
            grid_size env (resolution self) geom = Inr (bbox, nxy) \<longrightarrow>
            nxy = (0, 0) \<and> width (make_profile env self df bbox nxy) = 0 \<and>
            height (make_profile env self df bbox nxy) = 0 \<and>
            count (make_profile env self df bbox nxy) = length df0 - 2"
    using grid cnt by (auto simp: make_profile_def split: prod.splits)
  have rd: "read_csv fs inp = Inr df0" using assms(1) by (simp add: read_csv_Inr)
  have 2: "\<exists>e. convert_csv env self inp out fs = (Inl e, self, fs)"
  proof (cases "read_points env self df0")
    case (Inl e)
    with rd show ?thesis by (simp add: convert_csv_def)
  next
    case (Inr p)
    then obtain df geom where rp: "read_points env self df0 = Inr (df, geom)"
      by (cases p) auto
    show ?thesis
    proof (cases "grid_size env (resolution self) geom")
      case (Inl e)
      with rd rp show ?thesis by (simp add: convert_csv_def)
    next
      case (Inr q)
      then obtain bbox nxy where gs: "grid_size env (resolution self) geom = Inr (bbox, nxy)"
        by (cases q) auto
      from grid [OF rp gs] have "fst nxy < 1 \<or> snd nxy < 1" by simp
      from convert_csv_zero_grid [of fs inp, OF assms(1) rp gs this] show ?thesis by blast
    qed
  qed
  from 1 2 show ?thesis by blast
qed

theorem single_point_no_raster_witness:
  "distinct (map fst one_point) \<and>
   grid_size equator_env (resolution (init [] 4326 50)) [(139, 35)] =
     Inr ((139, 35, 139, 35), (0, 0)) \<and>
   count (make_profile equator_env (init [] 4326 50) [(''val'', [10])] (139, 35, 139, 35) (0, 0)) = 1 \<and>
   (\<exists>e. convert_csv equator_env (init [] 4326 50) ''p.csv'' ''p.tif''
          [''p.csv'' \<mapsto> Csv one_point] =
        (Inl e, init [] 4326 50, [''p.csv'' \<mapsto> Csv one_point]))"
proof -
  have 1: "[''p.csv'' \<mapsto> Csv one_point] ''p.csv'' = Some (Csv one_point)"
    by simp
  have 2: "distinct (map fst one_point)"
    by (simp add: one_point_def)
  have 3: "\<forall>col \<in> set one_point. length (snd col) = 1"
    by (simp add: one_point_def)
  have 4: "grid_size equator_env (resolution (init [] 4326 50)) [(139, 35)] =
      Inr ((139, 35, 139, 35), (0, 0))"
    using grid_size_one by (simp add: resolution_50)
  have 5: "length one_point - 2 = 1"
    by (simp add: one_point_def)
  note t = single_point_no_raster [of "[''p.csv'' \<mapsto> Csv one_point]" "''p.csv''" one_point
      equator_env "init [] 4326 50" "''p.tif''", OF 1 2 3]
  from t read_points_one 4
  have "count (make_profile equator_env (init [] 4326 50) [(''val'', [10])] (139, 35, 139, 35) (0, 0)) =
      length one_point - 2"
    by blast
  with t 2 4 5 show ?thesis by simp
qed

text \<open>
  Claim C1 as stated fails: for the table with the single point at latitude 35 and
  longitude 139 and one attribute column, at a resolution of 50 metres, the conversion
  ends with the raster library's exception and there is no output raster, so no band
  with a cell that holds the point's value.
\<close>

theorem single_point_counterexample:
  "fst (convert_csv equator_env (init [] 4326 50) ''p.csv'' ''p.tif''
          [''p.csv'' \<mapsto> Csv one_point]) = Inl RasterioIOError \<and>
   snd (snd (convert_csv equator_env (init [] 4326 50) ''p.csv'' ''p.tif''
          [''p.csv'' \<mapsto> Csv one_point])) ''p.tif'' = None"
  by (simp add: convert_csv_def read_csv_def resolution_50 read_points_one grid_size_one
      rasterio_open_def make_profile_def)

text \<open>
  Claim C2. For every input whose grid size has a zero on either axis, the conversion
  fails: it ends with an exception of the class \<open>OSError\<close>, the class of the
  module's invalid-input errors, and no output file is written, empty or otherwise. The
  converter itself checks nothing; the exception is \<open>RasterioIOError\<close>, an \<open>OSError\<close>,
  which the raster library raises when it is asked to create a file without cells.
\<close>

theorem zero_grid_fails_with_OSError:
  assumes "fs inp = Some (Csv df0)"
    and "read_points env self df0 = Inr (df, geom)"
    and "grid_size env (resolution self) geom = Inr (bbox, nxy)"
    and "fst nxy = 0 \<or> snd nxy = 0"
  shows "\<exists>e. convert_csv env self inp out fs = (Inl e, self, fs) \<and> is_OSError e \<and>
             e = RasterioIOError"
proof -
  from assms(4) have "fst nxy < 1 \<or> snd nxy < 1" by auto
  from convert_csv_zero_grid [of fs inp, OF assms(1-3) this] show ?thesis by simp
qed

theorem zero_grid_fails_with_OSError_witness:
  "grid_size equator_env (resolution (init [] 4326 100)) [(0, 0), (1 / 400, 0)] =
     Inr ((0, 0, 1 / 400, 0), (2, 0)) \<and>
   convert_csv equator_env (init [] 4326 100) ''r.csv'' ''r.tif''
       [''r.csv'' \<mapsto> Csv same_latitude] =
     (Inl RasterioIOError, init [] 4326 100, [''r.csv'' \<mapsto> Csv same_latitude]) \<and>
   is_OSError RasterioIOError"
proof -
  have 1: "[''r.csv'' \<mapsto> Csv same_latitude] ''r.csv'' = Some (Csv same_latitude)"
    by simp
  have 3: "grid_size equator_env (resolution (init [] 4326 100)) [(0, 0), (1 / 400, 0)] =
      Inr ((0, 0, 1 / 400, 0), (2, 0))"
    using grid_size_same by (simp add: init_def)
  have 4: "fst (2 :: int, 0 :: int) = 0 \<or> snd (2 :: int, 0 :: int) = 0"
    by simp
  from zero_grid_fails_with_OSError [of "[''r.csv'' \<mapsto> Csv same_latitude]" "''r.csv''",
      OF 1 read_points_same 3 4, of "''r.tif''"] 3
  show ?thesis by auto
qed

section \<open>Which exceptions a conversion can end with\<close>

lemma read_csv_error:
  "read_csv fs p = Inl e \<Longrightarrow>
     e = FileNotFoundError \<or> e = IsADirectoryError \<or> e = EmptyDataError \<or> e = ParserError"
  by (auto simp: read_csv_def split: option.splits fs_entry.splits)

lemma get_latlon_names_error: "get_latlon_names f cs = Inl e \<Longrightarrow> \<exists>m. e = KeyError m"
  by (auto simp: get_latlon_names_def Let_def split: if_splits)

lemma column_error: "column df n = Inl e \<Longrightarrow> e = KeyError n"
  by (auto simp: column_def split: option.splits)

lemma read_points_error:
  "read_points env self df = Inl e \<Longrightarrow> (\<exists>m. e = KeyError m) \<or> e = IndexError \<or> e = CRSError"
  by (auto simp: read_points_def split: sum.splits option.splits if_splits
      dest: get_latlon_names_error column_error)

lemma int_quotient_error: "int_quotient env x u = Inl e \<Longrightarrow> e = ValueError \<or> e = OverflowError"
  by (auto simp: int_quotient_def split: if_splits)

lemma grid_size_error:
  "grid_size env res geom = Inl e \<Longrightarrow> (\<exists>m. e = KeyError m) \<or> e = ValueError \<or> e = OverflowError"
  by (auto simp: grid_size_def Let_def split: list.splits prod.splits sum.splits
      dest: int_quotient_error)

lemma rasterio_open_error: "rasterio_open env p prof = Inl e \<Longrightarrow> e = RasterioIOError"
  by (auto simp: rasterio_open_def split: if_splits)

lemma rasterize_error: "rasterize env shapes shp t v = Inl e \<Longrightarrow> e = ValueError"
  by (auto simp: rasterize_def split: if_splits)

lemma write_bands_error:
  "write_bands env i names gdf geom nxy t v dst = (Some e, dst') \<Longrightarrow> (\<exists>m. e = KeyError m) \<or> e = ValueError"
  by (induction names arbitrary: i dst)
     (auto split: sum.splits dest: column_error rasterize_error)

lemma convert_csv_no_OSError: "fst (convert_csv env self i out fs) \<noteq> Inl (OSError m)"
  by (auto simp: convert_csv_def Let_def split: sum.splits prod.splits option.splits
      dest: read_csv_error read_points_error grid_size_error rasterio_open_error write_bands_error)

section \<open>The object is never changed\<close>

lemma convert_csv_self: "fst (snd (convert_csv env self i out fs)) = self"
  by (auto simp: convert_csv_def Let_def split: sum.splits prod.splits option.splits)

lemma execute_one_self: "fst (snd (execute_one env self i fs)) = self"
  by (auto simp: execute_one_def Let_def convert_csv_self split: prod.splits)

lemma execute_loop_self: "fst (snd (execute_loop env self files fs)) = self"
proof (induction files arbitrary: self fs)
  case Nil
  show ?case by simp
next
  case (Cons f files)
  obtain r s fs' where e: "execute_one env self f fs = (r, s, fs')"
    by (cases "execute_one env self f fs") auto
  then have "s = self" using execute_one_self [of env self f fs] by simp
  with e Cons.IH [of self fs'] show ?case
    by (cases r) auto
qed

text \<open>
  Claim C10. \<^verbatim>\<open>output_file_list\<close> is empty after \<^verbatim>\<open>__init__\<close>, and none of
  \<^verbatim>\<open>convert_csv\<close>, \<^verbatim>\<open>execute_one\<close> and \<^verbatim>\<open>execute_all\<close> changes the object, whether
  it returns or raises: after \<^verbatim>\<open>execute_all\<close> on a new object the list is still empty.
\<close>

theorem output_file_list_untouched:
  "output_file_list (init files code res) = [] \<and>
   fst (snd (convert_csv env self inp out fs)) = self \<and>
   fst (snd (execute_one env self inp fs)) = self \<and>
   fst (snd (execute_all env self fs)) = self \<and>
   output_file_list (fst (snd (execute_all env (init files code res) fs))) = []"
  by (simp add: convert_csv_self execute_one_self execute_all_def execute_loop_self)
     (simp add: init_def)

section \<open>The checks of \<^verbatim>\<open>execute_one\<close>\<close>

text \<open>
  Claim C9. A path that does not exist raises \<open>File not found!\<close>, whatever its
  extension; the invalid-extension error is raised exactly for the paths that exist and
  whose extension, in lower case, is not \<open>.csv\<close>; a path that exists with an extension
  that is \<open>.csv\<close> in any mix of cases goes on to the conversion, with the output
  beside it under the extension \<open>.tif\<close>.
\<close>

theorem execute_one_checks:
  "(\<not> lexists fs p \<longrightarrow>
      execute_one env self p fs = (Inl (OSError ''File not found!''), self, fs)) \<and>
   (fst (execute_one env self p fs) =
        Inl (OSError ''File extension is invalid! Only 'csv' is available.'')
      \<longleftrightarrow> lexists fs p \<and> lower (snd (splitext (basename p))) \<noteq> ''.csv'') \<and>
   (lexists fs p \<and> lower (snd (splitext (basename p))) = ''.csv'' \<longrightarrow>
      execute_one env self p fs =
        convert_csv env self p
          (join (dirname p) (fst (splitext (basename p)) @ ''.tif'')) fs)"
  using convert_csv_no_OSError [of env self p _ fs]
  by (auto simp: execute_one_def Let_def split: prod.splits)


theorem execute_one_checks_witness:
  "execute_one equator_env (init [] 4326 100) ''notes.txt'' Map.empty =
     (Inl (OSError ''File not found!''), init [] 4326 100, Map.empty) \<and>
   fst (execute_one equator_env (init [] 4326 100) ''notes.txt'' [''notes.txt'' \<mapsto> Other]) =
     Inl (OSError ''File extension is invalid! Only 'csv' is available.'') \<and>
   execute_one equator_env (init [] 4326 100) ''d/pts.CSV'' [''d/pts.CSV'' \<mapsto> Csv one_point] =
     convert_csv equator_env (init [] 4326 100) ''d/pts.CSV'' ''d/pts.tif''
       [''d/pts.CSV'' \<mapsto> Csv one_point]"
proof -
  have 1: "\<not> lexists Map.empty ''notes.txt''"
    by (simp add: lexists_def)
  have 2: "lexists [''notes.txt'' \<mapsto> Other] ''notes.txt'' \<and>
           lower (snd (splitext (basename ''notes.txt''))) \<noteq> ''.csv''"
    by (simp add: lexists_def splitext_def basename_def lower_def lower_char_def)
  have 3: "lexists [''d/pts.CSV'' \<mapsto> Csv one_point] ''d/pts.CSV'' \<and>
           lower (snd (splitext (basename ''d/pts.CSV''))) = ''.csv''"
    by (simp add: lexists_def splitext_def basename_def lower_def lower_char_def)
  have 4: "join (dirname ''d/pts.CSV'') (fst (splitext (basename ''d/pts.CSV'')) @ ''.tif'') =
           ''d/pts.tif''"
    by (simp add: join_def dirname_def splitext_def basename_def)
  from 1 execute_one_checks [of Map.empty "''notes.txt''" equator_env "init [] 4326 100"]
  have a: "execute_one equator_env (init [] 4326 100) ''notes.txt'' Map.empty =
     (Inl (OSError ''File not found!''), init [] 4326 100, Map.empty)"
    by blast
  from 2 execute_one_checks [of "[''notes.txt'' \<mapsto> Other]" "''notes.txt''" equator_env
      "init [] 4326 100"]
  have b: "fst (execute_one equator_env (init [] 4326 100) ''notes.txt''
      [''notes.txt'' \<mapsto> Other]) =
     Inl (OSError ''File extension is invalid! Only 'csv' is available.'')"
    by blast
  from 3 execute_one_checks [of "[''d/pts.CSV'' \<mapsto> Csv one_point]" "''d/pts.CSV''"
      equator_env "init [] 4326 100"]
  have c: "execute_one equator_env (init [] 4326 100) ''d/pts.CSV''
      [''d/pts.CSV'' \<mapsto> Csv one_point] =
     convert_csv equator_env (init [] 4326 100) ''d/pts.CSV''
       (join (dirname ''d/pts.CSV'') (fst (splitext (basename ''d/pts.CSV'')) @ ''.tif''))
       [''d/pts.CSV'' \<mapsto> Csv one_point]"
    by blast
  from a b c 4 show ?thesis by simp
qed

end
